theory Spec2Isabelle
  imports Complex_Main "HOL-Library.Signed_Division"
begin

section \<open>Numbers and dates of the platform\<close>

text \<open>
  The repository holds several drafts of its three files. The model follows the latest of
  each: the reader \<^verbatim>\<open>AppleHealthReader\<close> that looks for the iPhone snapshot first and
  seeds its generated data with day, month and hour; the parser
  \<^verbatim>\<open>AppleHealthXMLParser\<close> that checks the size of the export before it reads it;
  the server whose handler checks the timeframe.

  The program is TypeScript. A JavaScript number is modelled as a real: the model covers
  finite numbers with exact arithmetic, so attribute strings that do not read as a number
  (NaN) and the rounding error of doubles are outside it. A \<^verbatim>\<open>Date\<close> is its time
  value, an integer count of milliseconds since the epoch; a date string that does not
  read as a date gives the invalid date, whose time value is NaN. Local time is read
  through the time zone of the host, whose offset from UTC depends on the instant
  (daylight saving).
\<close>

definition Math_round :: "real \<Rightarrow> real" where
  \<comment> \<open>\<^verbatim>\<open>Math.round\<close>: the nearest integer, a tie going up.\<close>
  "Math_round x = of_int \<lfloor>x + 1 / 2\<rfloor>"

definition Math_floor :: "real \<Rightarrow> real" where
  "Math_floor x = of_int \<lfloor>x\<rfloor>"

fun Math_max :: "real \<Rightarrow> real list \<Rightarrow> real" where
  \<comment> \<open>\<^verbatim>\<open>Math.max(...xs)\<close> on a list that is not empty: its first element and the rest.\<close>
  "Math_max x [] = x"
| "Math_max x (y # ys) = Math_max (max x y) ys"

definition msPerDay :: int where
  "msPerDay = 86400000"

definition Day :: "int \<Rightarrow> int" where
  "Day t = t div msPerDay"

definition TimeWithinDay :: "int \<Rightarrow> int" where
  "TimeWithinDay t = t mod msPerDay"

definition MakeTime :: "int \<Rightarrow> int \<Rightarrow> int \<Rightarrow> int \<Rightarrow> int" where
  "MakeTime h m s ms = h * 3600000 + m * 60000 + s * 1000 + ms"

definition MakeDate :: "int \<Rightarrow> int \<Rightarrow> int" where
  "MakeDate day time = day * msPerDay + time"

text \<open>
  The time zone of the host, as the platform has it from the zone database: the offset
  from UTC (milliseconds) in force before the first change of the clocks, and the
  changes in the order of time, each with its instant and the offset in force from then
  on. The platform's \<^verbatim>\<open>LocalTZA(t, isUTC)\<close> reads the table with a UTC instant, or with
  a local time value; a local time that a change skips (clocks put forward) or repeats
  (clocks put back) is read with the offset before the change.
\<close>

record zone =
  standard :: int
  transitions :: "(int \<times> int) list"

fun offsetAtUTC :: "int \<Rightarrow> (int \<times> int) list \<Rightarrow> int \<Rightarrow> int" where
  "offsetAtUTC off [] t = off"
| "offsetAtUTC off ((u, off') # ts) t = (if t < u then off else offsetAtUTC off' ts t)"

fun offsetAtLocal :: "int \<Rightarrow> (int \<times> int) list \<Rightarrow> int \<Rightarrow> int" where
  \<comment> \<open>The change at \<open>u\<close> is at local time \<open>u + off\<close> on the clock before it and
      \<open>u + off'\<close> on the clock after it; the local times between the two are the
      skipped or the repeated ones.\<close>
  "offsetAtLocal off [] w = off"
| "offsetAtLocal off ((u, off') # ts) w =
     (if w < max (u + off) (u + off') then off else offsetAtLocal off' ts w)"

definition LocalTZA :: "zone \<Rightarrow> int \<Rightarrow> bool \<Rightarrow> int" where
  "LocalTZA z t isUTC =
     (if isUTC then offsetAtUTC (standard z) (transitions z) t
      else offsetAtLocal (standard z) (transitions z) t)"

definition LocalTime :: "zone \<Rightarrow> int \<Rightarrow> int" where
  "LocalTime tza t = t + LocalTZA tza t True"

definition UTC :: "zone \<Rightarrow> int \<Rightarrow> int" where
  "UTC tza t = t - LocalTZA tza t False"

definition fixed_zone :: "int \<Rightarrow> zone" where
  \<comment> \<open>A zone whose clocks never change: offset \<open>k\<close> at every instant.\<close>
  "fixed_zone k = \<lparr>standard = k, transitions = []\<rparr>"

text \<open>
  The civil date of a day number (days since 1970-01-01) in the proleptic Gregorian
  calendar, and back: years are counted from March inside 400-year eras of 146097 days.
  The result is (year, month 1..12, day of the month).
\<close>

definition era :: "int \<Rightarrow> int" where
  "era z = (z + 719468) div 146097"

definition day_of_era :: "int \<Rightarrow> int" where
  "day_of_era z = (z + 719468) mod 146097"

definition year_of_era :: "int \<Rightarrow> int" where
  "year_of_era doe = (doe - doe div 1460 + doe div 36524 - doe div 146096) div 365"

definition day_of_year :: "int \<Rightarrow> int" where
  \<comment> \<open>Counted from the first of March.\<close>
  "day_of_year doe =
     doe - (365 * year_of_era doe + year_of_era doe div 4 - year_of_era doe div 100)"

definition march_month :: "int \<Rightarrow> int" where
  \<comment> \<open>0 is March, 11 is February.\<close>
  "march_month doy = (5 * doy + 2) div 153"

definition civil_from_days :: "int \<Rightarrow> int \<times> int \<times> int" where
  "civil_from_days z =
     (let doy = day_of_year (day_of_era z);
          mp = march_month doy;
          d = doy - (153 * mp + 2) div 5 + 1;
          m = (if mp < 10 then mp + 3 else mp - 9);
          y = year_of_era (day_of_era z) + era z * 400
      in (if m \<le> 2 then y + 1 else y, m, d))"

definition days_from_civil :: "int \<Rightarrow> int \<Rightarrow> int \<Rightarrow> int" where
  "days_from_civil y m d =
     (let y' = (if m \<le> 2 then y - 1 else y);
          era = y' div 400;
          yoe = y' mod 400;
          doy = (153 * (if m > 2 then m - 3 else m + 9) + 2) div 5 + d - 1;
          doe = yoe * 365 + yoe div 4 - yoe div 100 + doy
      in era * 146097 + doe - 719468)"

definition instant :: "int \<Rightarrow> int \<Rightarrow> int \<Rightarrow> int \<Rightarrow> int \<Rightarrow> int \<Rightarrow> int \<Rightarrow> int" where
  \<comment> \<open>The time value of the UTC instant y-m-d h:mi:s.ms.\<close>
  "instant y m d h mi s ms = MakeDate (days_from_civil y m d) (MakeTime h mi s ms)"

definition YearFromTime :: "int \<Rightarrow> int" where
  "YearFromTime t = fst (civil_from_days (Day t))"

definition MonthFromTime :: "int \<Rightarrow> int" where
  \<comment> \<open>0 is January.\<close>
  "MonthFromTime t = fst (snd (civil_from_days (Day t))) - 1"

definition DateFromTime :: "int \<Rightarrow> int" where
  "DateFromTime t = snd (snd (civil_from_days (Day t)))"

definition HourFromTime :: "int \<Rightarrow> int" where
  "HourFromTime t = (t div 3600000) mod 24"

definition getDate :: "zone \<Rightarrow> int \<Rightarrow> int" where
  "getDate tza t = DateFromTime (LocalTime tza t)"

definition getMonth :: "zone \<Rightarrow> int \<Rightarrow> int" where
  "getMonth tza t = MonthFromTime (LocalTime tza t)"

definition getHours :: "zone \<Rightarrow> int \<Rightarrow> int" where
  "getHours tza t = HourFromTime (LocalTime tza t)"

definition setHours :: "zone \<Rightarrow> int \<Rightarrow> int \<Rightarrow> int \<Rightarrow> int \<Rightarrow> int \<Rightarrow> int" where
  \<comment> \<open>\<^verbatim>\<open>d.setHours(h, m, s, ms)\<close>: the local day is kept, the time within it replaced.\<close>
  "setHours tza t h m s ms = UTC tza (MakeDate (Day (LocalTime tza t)) (MakeTime h m s ms))"

definition MakeDay :: "int \<Rightarrow> int \<Rightarrow> int \<Rightarrow> int" where
  \<comment> \<open>The day number of day \<open>date\<close> of a month (0 is January), counted on from the first
      of the month also when \<open>date\<close> is below 1 or beyond the month's end.\<close>
  "MakeDay year month date =
     days_from_civil (year + month div 12) (month mod 12 + 1) 1 + date - 1"

definition setDate :: "zone \<Rightarrow> int \<Rightarrow> int \<Rightarrow> int" where
  \<comment> \<open>\<^verbatim>\<open>d.setDate(dt)\<close>: day \<open>dt\<close> of the local month of \<open>t\<close>, the time within the
      day kept.\<close>
  "setDate tza t dt =
     (let lt = LocalTime tza t;
          newDate = MakeDate (MakeDay (YearFromTime lt) (MonthFromTime lt) dt) (TimeWithinDay lt)
      in UTC tza newDate)"

section \<open>The data model\<close>

record HeartRate =
  resting :: real
  average :: real
  max' :: real

record HealthData =
  steps :: real
  heartRate :: HeartRate
  sleepHours :: real
  activeCalories :: real
  workouts :: real

text \<open>
  A \<^verbatim>\<open>Record\<close> element of the export with its attributes read: \<open>rvalue\<close> is
  \<^verbatim>\<open>parseFloat(r.$.value)\<close>, \<open>startDate\<close> and \<open>endDate\<close> the time values of
  \<^verbatim>\<open>new Date(r.$.startDate)\<close> and \<^verbatim>\<open>new Date(r.$.endDate)\<close>. Of a
  \<^verbatim>\<open>Workout\<close> element only the start is read.
\<close>

record HealthRecord =
  rtype :: string
  rvalue :: real
  startDate :: int
  endDate :: int

record WorkoutRecord =
  workoutStart :: int

section \<open>The XML parser: time window and metric extraction\<close>

definition getDateRange :: "zone \<Rightarrow> int \<Rightarrow> string \<Rightarrow> int \<times> int" where
  \<comment> \<open>(startDate, endDate); a timeframe outside the three cases leaves the start at now.\<close>
  "getDateRange tza now timeframe =
     (let endD = setHours tza now 23 59 59 999;
          startD =
            (if timeframe = ''today'' then setHours tza now 0 0 0 0
             else if timeframe = ''week''
               then setHours tza (setDate tza now (getDate tza now - 7)) 0 0 0 0
             else if timeframe = ''month''
               then setHours tza (setDate tza now (getDate tza now - 30)) 0 0 0 0
             else now)
      in (startD, endD))"

definition extractSteps :: "HealthRecord list \<Rightarrow> real" where
  "extractSteps records =
     (let stepRecords = filter (\<lambda>r. rtype r = ''HKQuantityTypeIdentifierStepCount'') records
      in foldl (\<lambda>total r. total + rvalue r) 0 stepRecords)"

definition extractHeartRate :: "HealthRecord list \<Rightarrow> HeartRate" where
  "extractHeartRate records =
     (let heartRateRecords = filter (\<lambda>r. rtype r = ''HKQuantityTypeIdentifierHeartRate'') records;
          restingHRRecords =
            filter (\<lambda>r. rtype r = ''HKQuantityTypeIdentifierRestingHeartRate'') records
      in case map rvalue heartRateRecords of
           [] \<Rightarrow> \<lparr>resting = 60, average = 80, max' = 120\<rparr>
         | h # hs \<Rightarrow>
             \<lparr>resting =
                (case sort_key (\<lambda>r. - startDate r) restingHRRecords of
                   [] \<Rightarrow> 60
                 | r # _ \<Rightarrow> Math_round (rvalue r)),
              average = Math_round (foldl (\<lambda>sum hr. sum + hr) 0 (h # hs) / real (length (h # hs))),
              max' = Math_round (Math_max h hs)\<rparr>)"

definition extractSleep :: "HealthRecord list \<Rightarrow> real" where
  "extractSleep records =
     (let sleepRecords = filter (\<lambda>r. rtype r = ''HKCategoryTypeIdentifierSleepAnalysis'') records
      in if length sleepRecords = 0 then 7.5
         else
           (let totalSleepMinutes =
                  foldl (\<lambda>total r. total + real_of_int (endDate r - startDate r) / (1000 * 60))
                    0 sleepRecords
            in Math_round ((totalSleepMinutes / 60) * 10) / 10))"

definition extractActiveCalories :: "HealthRecord list \<Rightarrow> real" where
  "extractActiveCalories records =
     (let calorieRecords =
            filter (\<lambda>r. rtype r = ''HKQuantityTypeIdentifierActiveEnergyBurned'') records
      in Math_round (foldl (\<lambda>total r. total + rvalue r) 0 calorieRecords))"

definition extractHealthMetrics ::
  "zone \<Rightarrow> int \<Rightarrow> HealthRecord list \<Rightarrow> WorkoutRecord list \<Rightarrow> string \<Rightarrow> HealthData" where
  "extractHealthMetrics tza now records wkts timeframe =
     (let (startD, endD) = getDateRange tza now timeframe;
          filteredRecords = filter (\<lambda>r. startDate r \<ge> startD \<and> startDate r \<le> endD) records;
          filteredWorkouts = filter (\<lambda>w. workoutStart w \<ge> startD \<and> workoutStart w \<le> endD) wkts
      in \<lparr>steps = extractSteps filteredRecords,
          heartRate = extractHeartRate filteredRecords,
          sleepHours = extractSleep filteredRecords,
          activeCalories = extractActiveCalories filteredRecords,
          workouts = real (length filteredWorkouts)\<rparr>)"

section \<open>The reader: live snapshot, export, generated data\<close>

text \<open>
  The snapshot \<^verbatim>\<open>health-data.json\<close> after \<^verbatim>\<open>JSON.parse\<close>. Every field is
  optional. \<open>iTimestamp\<close> is \<open>None\<close> when the field is missing or falsy, else the date
  that \<^verbatim>\<open>new Date(jsonData.timestamp)\<close> constructs.
\<close>

datatype js_date = InvalidDate | Date int

record iPhoneHealthData =
  iSteps :: "real option"
  iHeartRate :: "real option"
  iSleepHours :: "real option"
  iActiveCalories :: "real option"
  iTimestamp :: "js_date option"

definition or_default :: "real option \<Rightarrow> real \<Rightarrow> real" where
  \<comment> \<open>\<^verbatim>\<open>x || d\<close> on an optional number: a missing field and 0 are both falsy.\<close>
  "or_default x d = (case x of None \<Rightarrow> d | Some v \<Rightarrow> if v = 0 then d else v)"

definition processiPhoneData :: "iPhoneHealthData \<Rightarrow> string \<Rightarrow> HealthData" where
  "processiPhoneData iPhoneData timeframe =
     \<lparr>steps = or_default (iSteps iPhoneData) 0,
      heartRate =
        \<lparr>resting = or_default (iHeartRate iPhoneData) 65 - 10,
         average = or_default (iHeartRate iPhoneData) 75,
         max' = or_default (iHeartRate iPhoneData) 75 + 60\<rparr>,
      sleepHours = or_default (iSleepHours iPhoneData) 7.5,
      activeCalories = or_default (iActiveCalories iPhoneData) 400,
      workouts =
        (if timeframe = ''today''
         then (case iActiveCalories iPhoneData of
                 None \<Rightarrow> 0
               | Some c \<Rightarrow> if c \<noteq> 0 \<and> c > 300 then 1 else 0)
         else 5)\<rparr>"

text \<open>
  The world one request runs in. The snapshot file is absent
  (\<^verbatim>\<open>existsSync\<close> false), or reading or parsing it throws, or it parses. The export
  \<^verbatim>\<open>export.xml\<close> is absent (\<open>None\<close>) or a file with the size \<^verbatim>\<open>statSync\<close>
  reports (\<open>None\<close>: it throws), its first 1000 bytes (\<open>None\<close>: opening or reading
  throws) and what reading and parsing all of it gives. \<open>random\<close> gives the successive
  results of \<^verbatim>\<open>Math.random()\<close>.
\<close>

datatype snapshot_file = NoSnapshot | UnreadableSnapshot | Snapshot iPhoneHealthData

datatype xml_content =
    ReadFails
  | NotWellFormed
  | TimesOut
  | ExtractionThrows
  | Document "HealthRecord list" "WorkoutRecord list"

record export_file =
  statSize :: "nat option"
  firstChunk :: "string option"
  fullContent :: xml_content

record env =
  now :: int
  tza :: zone
  iCloud :: snapshot_file
  exportXml :: "export_file option"
  random :: "nat \<Rightarrow> real"

text \<open>What a call did to the two files, in order.\<close>

datatype io_event =
    SnapshotExists
  | SnapshotRead
  | ExportExists
  | ExportListDir
  | ExportStat
  | ExportReadHead
  | ExportReadAll
  | ExportParse

datatype xml_error =
    NotFound
  | StatThrows
  | TooLarge
  | ReadError
  | Malformed
  | Timeout
  | ExtractError

datatype error = FailedToParse xml_error

definition readiPhoneData :: "env \<Rightarrow> io_event list \<times> iPhoneHealthData option" where
  "readiPhoneData e =
     (case iCloud e of
        NoSnapshot \<Rightarrow> ([SnapshotExists], None)
      | UnreadableSnapshot \<Rightarrow> ([SnapshotExists, SnapshotRead], None)
      | Snapshot jsonData \<Rightarrow>
          ([SnapshotExists, SnapshotRead],
           (case iTimestamp jsonData of
              None \<Rightarrow> None
            | Some InvalidDate \<Rightarrow> None
            | Some (Date dataTime) \<Rightarrow>
                (let hoursDiff = real_of_int (now e - dataTime) / (1000 * 60 * 60)
                 in if hoursDiff < 24 then Some jsonData else None))))"

fun starts_with :: "string \<Rightarrow> string \<Rightarrow> bool" where
  "starts_with s [] = True"
| "starts_with [] (c # cs) = False"
| "starts_with (x # xs) (c # cs) = (x = c \<and> starts_with xs cs)"

fun str_includes :: "string \<Rightarrow> string \<Rightarrow> bool" where
  "str_includes [] sub = (sub = [])"
| "str_includes (x # xs) sub = (starts_with (x # xs) sub \<or> str_includes xs sub)"

definition checkForAppleHealthData :: "env \<Rightarrow> io_event list \<times> bool" where
  "checkForAppleHealthData e =
     (case exportXml e of
        None \<Rightarrow> ([ExportExists, ExportListDir], False)
      | Some f \<Rightarrow>
          (case statSize f of
             None \<Rightarrow> ([ExportExists, ExportStat], False)
           | Some sz \<Rightarrow>
               (case firstChunk f of
                  None \<Rightarrow> ([ExportExists, ExportStat, ExportReadHead], False)
                | Some chunk \<Rightarrow>
                    ([ExportExists, ExportStat, ExportReadHead],
                     str_includes chunk ''HealthData'' \<and> str_includes chunk ''<?xml''))))"

definition MAX_FILE_SIZE_MB :: real where
  "MAX_FILE_SIZE_MB = 100"

definition parseWithTimeout ::
  "env \<Rightarrow> export_file \<Rightarrow> string \<Rightarrow> io_event list \<times> (xml_error + HealthData)" where
  "parseWithTimeout e f timeframe =
     (case fullContent f of
        ReadFails \<Rightarrow> ([ExportReadAll], Inl ReadError)
      | NotWellFormed \<Rightarrow> ([ExportReadAll, ExportParse], Inl Malformed)
      | TimesOut \<Rightarrow> ([ExportReadAll, ExportParse], Inl Timeout)
      | ExtractionThrows \<Rightarrow> ([ExportReadAll, ExportParse], Inl ExtractError)
      | Document records wkts \<Rightarrow>
          ([ExportReadAll, ExportParse],
           Inr (extractHealthMetrics (tza e) (now e) records wkts timeframe)))"

definition parseHealthData :: "env \<Rightarrow> string \<Rightarrow> io_event list \<times> (error + HealthData)" where
  \<comment> \<open>Every error of the body is caught and thrown again, wrapped.\<close>
  "parseHealthData e timeframe =
     (case exportXml e of
        None \<Rightarrow> ([ExportExists], Inl (FailedToParse NotFound))
      | Some f \<Rightarrow>
          (case statSize f of
             None \<Rightarrow> ([ExportExists, ExportStat], Inl (FailedToParse StatThrows))
           | Some sz \<Rightarrow>
               (let fileSizeMB = real sz / 1024 / 1024
                in if fileSizeMB > MAX_FILE_SIZE_MB
                   then ([ExportExists, ExportStat], Inl (FailedToParse TooLarge))
                   else
                     (case parseWithTimeout e f timeframe of
                        (tr, Inl err) \<Rightarrow> ([ExportExists, ExportStat] @ tr, Inl (FailedToParse err))
                      | (tr, Inr healthData) \<Rightarrow> ([ExportExists, ExportStat] @ tr, Inr healthData)))))"

definition parseAppleHealthData :: "env \<Rightarrow> string \<Rightarrow> io_event list \<times> (error + HealthData)" where
  \<comment> \<open>Logs, and throws the parser's error on to its caller.\<close>
  "parseAppleHealthData e timeframe = parseHealthData e timeframe"

definition mockSeed :: "zone \<Rightarrow> int \<Rightarrow> int" where
  "mockSeed z t = getDate z t + getMonth z t + getHours z t"

definition mockToday :: "int \<Rightarrow> (nat \<Rightarrow> real) \<Rightarrow> HealthData" where
  "mockToday seed rnd =
     \<lparr>steps = Math_floor (rnd 0 * 4000) + 7000 + of_int (seed * 100),
      heartRate =
        \<lparr>resting = Math_floor (rnd 1 * 8) + 50 + of_int (seed smod 5),
         average = Math_floor (rnd 2 * 15) + 75 + of_int (seed smod 8),
         max' = Math_floor (rnd 3 * 25) + 145 + of_int (seed smod 10)\<rparr>,
      sleepHours = Math_round ((rnd 4 * 1.5 + 7 + of_int (seed smod 3) * 0.2) * 10) / 10,
      activeCalories = Math_floor (rnd 5 * 200) + 350 + of_int (seed * 20),
      workouts = (if seed smod 3 = 0 then 1 else 0)\<rparr>"

definition mockWeek :: "int \<Rightarrow> (nat \<Rightarrow> real) \<Rightarrow> HealthData" where
  "mockWeek seed rnd =
     \<lparr>steps = Math_floor (rnd 6 * 1500) + 8500 + of_int (seed * 50),
      heartRate =
        \<lparr>resting = Math_floor (rnd 7 * 6) + 52 + of_int (seed smod 4),
         average = Math_floor (rnd 8 * 12) + 76 + of_int (seed smod 6),
         max' = Math_floor (rnd 9 * 20) + 150 + of_int (seed smod 8)\<rparr>,
      sleepHours = Math_round ((rnd 10 * 1 + 7.1 + of_int (seed smod 2) * 0.3) * 10) / 10,
      activeCalories = Math_floor (rnd 11 * 400) + 2800 + of_int (seed * 30),
      workouts = Math_floor (rnd 12 * 3) + 4 + of_int (seed smod 3)\<rparr>"

definition mockMonth :: "int \<Rightarrow> (nat \<Rightarrow> real) \<Rightarrow> HealthData" where
  "mockMonth seed rnd =
     \<lparr>steps = Math_floor (rnd 13 * 1000) + 9000 + of_int (seed * 25),
      heartRate =
        \<lparr>resting = Math_floor (rnd 14 * 4) + 53 + of_int (seed smod 3),
         average = Math_floor (rnd 15 * 8) + 77 + of_int (seed smod 5),
         max' = Math_floor (rnd 16 * 15) + 155 + of_int (seed smod 7)\<rparr>,
      sleepHours = Math_round ((rnd 17 * 0.8 + 7.3 + of_int (seed smod 2) * 0.2) * 10) / 10,
      activeCalories = Math_floor (rnd 18 * 1500) + 12000 + of_int (seed * 100),
      workouts = Math_floor (rnd 19 * 5) + 18 + of_int (seed smod 4)\<rparr>"

definition mockData :: "int \<Rightarrow> (nat \<Rightarrow> real) \<Rightarrow> string \<Rightarrow> HealthData option" where
  \<comment> \<open>The object literal: all three entries are built, in this order, on every call, so
      the twenty random numbers are drawn in the order of the source text.\<close>
  "mockData seed rnd key =
     (if key = ''today'' then Some (mockToday seed rnd)
      else if key = ''week'' then Some (mockWeek seed rnd)
      else if key = ''month'' then Some (mockMonth seed rnd)
      else None)"

definition getRealisticMockData :: "env \<Rightarrow> string \<Rightarrow> HealthData" where
  "getRealisticMockData e timeframe =
     (let seed = mockSeed (tza e) (now e)
      in case mockData seed (random e) timeframe of
           Some result \<Rightarrow> result
         | None \<Rightarrow> mockToday seed (random e))"

definition getHealthSummary_body :: "env \<Rightarrow> string \<Rightarrow> io_event list \<times> (error + HealthData)" where
  \<comment> \<open>The body of the outer \<^verbatim>\<open>try\<close>.\<close>
  "getHealthSummary_body e timeframe =
     (case readiPhoneData e of
        (t1, Some iPhoneData) \<Rightarrow> (t1, Inr (processiPhoneData iPhoneData timeframe))
      | (t1, None) \<Rightarrow>
          (case checkForAppleHealthData e of
             (t2, True) \<Rightarrow>
               (case parseAppleHealthData e timeframe of
                  (t3, Inr result) \<Rightarrow> (t1 @ t2 @ t3, Inr result)
                | (t3, Inl xmlError) \<Rightarrow> (t1 @ t2 @ t3, Inr (getRealisticMockData e timeframe)))
           | (t2, False) \<Rightarrow> (t1 @ t2, Inr (getRealisticMockData e timeframe))))"

definition getHealthSummary :: "env \<Rightarrow> string \<Rightarrow> io_event list \<times> (error + HealthData)" where
  \<comment> \<open>The promise is fulfilled (\<open>Inr\<close>) or rejected (\<open>Inl\<close>).\<close>
  "getHealthSummary e timeframe =
     (case getHealthSummary_body e timeframe of
        (t, Inr result) \<Rightarrow> (t, Inr result)
      | (t, Inl err) \<Rightarrow> (t, Inr (getRealisticMockData e timeframe)))"

definition valid_timeframe :: "string \<Rightarrow> bool" where
  \<comment> \<open>What the tool handler lets through.\<close>
  "valid_timeframe timeframe = (timeframe \<in> set [''today'', ''week'', ''month''])"

section \<open>The workout tool\<close>

record Workout =
  wdate :: string
  wtype :: string
  duration :: string
  distance :: "string option"
  avgHeartRate :: int
  maxHeartRate :: int
  calories :: int
  pace :: "string option"
  avgSpeed :: "string option"

definition mockWorkouts :: "Workout list" where
  "mockWorkouts =
     [\<lparr>wdate = ''2025-07-17'', wtype = ''Running'', duration = ''32:15'',
       distance = Some ''4.2 miles'', avgHeartRate = 145, maxHeartRate = 172, calories = 320,
       pace = Some ''7:41 /mile'', avgSpeed = None\<rparr>,
      \<lparr>wdate = ''2025-07-16'', wtype = ''Strength Training'', duration = ''45:30'',
       distance = None, avgHeartRate = 110, maxHeartRate = 140, calories = 280,
       pace = None, avgSpeed = None\<rparr>,
      \<lparr>wdate = ''2025-07-15'', wtype = ''Cycling'', duration = ''1:15:22'',
       distance = Some ''18.5 miles'', avgHeartRate = 135, maxHeartRate = 165, calories = 450,
       pace = None, avgSpeed = Some ''14.7 mph''\<rparr>]"

definition ToIntegerOrInfinity :: "real \<Rightarrow> int" where
  \<comment> \<open>Truncation towards zero.\<close>
  "ToIntegerOrInfinity x = (if x < 0 then \<lceil>x\<rceil> else \<lfloor>x\<rfloor>)"

definition slice0 :: "'a list \<Rightarrow> real \<Rightarrow> 'a list" where
  \<comment> \<open>\<^verbatim>\<open>xs.slice(0, end)\<close>: a negative end counts from the end of the array.\<close>
  "slice0 xs end' =
     (let len = int (length xs);
          relativeEnd = ToIntegerOrInfinity end';
          final = (if relativeEnd < 0 then max (len + relativeEnd) 0 else min relativeEnd len)
      in take (nat final) xs)"

definition getWorkoutDetails :: "real option \<Rightarrow> Workout list" where
  \<comment> \<open>The list \<open>workouts\<close> whose length and JSON text the handler returns.\<close>
  "getWorkoutDetails limit_arg =
     (let limit = or_default limit_arg 5
      in slice0 mockWorkouts limit)"

section \<open>Notions of the specification\<close>

text \<open>
  The random numbers lie in the unit interval. A summary is well formed when its counts
  are whole and not negative, its heart rates whole and positive with the maximum not
  below the average, and its hours of sleep not negative.
\<close>

definition unit_draws :: "(nat \<Rightarrow> real) \<Rightarrow> bool" where
  "unit_draws rnd = (\<forall>i. 0 \<le> rnd i \<and> rnd i < 1)"

definition nonneg_integer :: "real \<Rightarrow> bool" where
  "nonneg_integer x = (x \<in> \<int> \<and> 0 \<le> x)"

definition positive_integer :: "real \<Rightarrow> bool" where
  "positive_integer x = (x \<in> \<int> \<and> 0 < x)"

definition well_formed_summary :: "HealthData \<Rightarrow> bool" where
  "well_formed_summary h =
     (nonneg_integer (steps h) \<and>
      positive_integer (resting (heartRate h)) \<and>
      positive_integer (average (heartRate h)) \<and>
      positive_integer (max' (heartRate h)) \<and>
      average (heartRate h) \<le> max' (heartRate h) \<and>
      0 \<le> sleepHours h \<and>
      nonneg_integer (activeCalories h) \<and>
      nonneg_integer (workouts h))"

text \<open>
  The mapping of a live snapshot as the specification words it: a missing field takes its
  default (heart rate 75), a present one its own number; the triple is the reading minus
  10, the reading, and the reading plus 60; the workout count is read off the snapshot's
  own active calories.
\<close>

definition spec_default :: "real option \<Rightarrow> real \<Rightarrow> real" where
  "spec_default x d = (case x of None \<Rightarrow> d | Some v \<Rightarrow> v)"

definition spec_liveSync_summary :: "iPhoneHealthData \<Rightarrow> string \<Rightarrow> HealthData" where
  "spec_liveSync_summary snapshot timeframe =
     (let hr = spec_default (iHeartRate snapshot) 75
      in \<lparr>steps = spec_default (iSteps snapshot) 0,
          heartRate = \<lparr>resting = hr - 10, average = hr, max' = hr + 60\<rparr>,
          sleepHours = spec_default (iSleepHours snapshot) 7.5,
          activeCalories = spec_default (iActiveCalories snapshot) 400,
          workouts =
            (if timeframe = ''today''
             then (case iActiveCalories snapshot of
                     None \<Rightarrow> 0
                   | Some c \<Rightarrow> if c > 300 then 1 else 0)
             else 5)\<rparr>)"

text \<open>
  Inputs whose numbers are what a health export or snapshot means them to be. A record has
  a value that is not negative (whole for a step count, at least one half for a heart
  rate, so that it rounds to a positive number) and does not end before it starts. A
  snapshot field that is present is whole and not negative; hours of sleep need not be
  whole; a heart rate is 0 (read as missing) or above 10, so that the resting rate derived
  from it is positive.
\<close>

definition plausible_record :: "HealthRecord \<Rightarrow> bool" where
  "plausible_record r =
     (0 \<le> rvalue r \<and> startDate r \<le> endDate r \<and>
      (rtype r = ''HKQuantityTypeIdentifierStepCount'' \<longrightarrow> rvalue r \<in> \<int>) \<and>
      (rtype r = ''HKQuantityTypeIdentifierHeartRate'' \<longrightarrow> 1 / 2 \<le> rvalue r) \<and>
      (rtype r = ''HKQuantityTypeIdentifierRestingHeartRate'' \<longrightarrow> 1 / 2 \<le> rvalue r))"

definition plausible_field :: "real option \<Rightarrow> bool" where
  "plausible_field x = (case x of None \<Rightarrow> True | Some v \<Rightarrow> v \<in> \<int> \<and> 0 \<le> v)"

definition plausible_snapshot :: "iPhoneHealthData \<Rightarrow> bool" where
  "plausible_snapshot j =
     (plausible_field (iSteps j) \<and>
      (case iHeartRate j of None \<Rightarrow> True | Some h \<Rightarrow> h \<in> \<int> \<and> (h = 0 \<or> 10 < h)) \<and>
      (case iSleepHours j of None \<Rightarrow> True | Some v \<Rightarrow> 0 \<le> v) \<and>
      plausible_field (iActiveCalories j))"

text \<open>
  The window as the specification words it is read on the clock of the host: midnight
  \<open>k\<close> days before the local day of an instant, the same time of day \<open>k\<close> days
  before it, and the last millisecond of its day, as local time values. A change of the
  clocks at \<open>u\<close> from offset \<open>off\<close> to a larger offset \<open>off'\<close> skips the local
  times from \<open>u + off\<close> up to \<open>u + off'\<close>; the table of a zone is chronological when
  its changes are in the order of time. A local time value is on the clock when the
  instant the platform gives for it shows that time again. Its day is kept when that
  instant falls on its day of the local calendar. The offsets of a zone lie within a day
  of one another when no two of them are a day or more apart.
\<close>

definition midnight_before :: "zone \<Rightarrow> int \<Rightarrow> int \<Rightarrow> int" where
  "midnight_before z x k = MakeDate (Day (LocalTime z x) - k) 0"

definition same_time_before :: "zone \<Rightarrow> int \<Rightarrow> int \<Rightarrow> int" where
  "same_time_before z x k = MakeDate (Day (LocalTime z x) - k) (TimeWithinDay (LocalTime z x))"

definition end_of_day :: "zone \<Rightarrow> int \<Rightarrow> int" where
  "end_of_day z x = MakeDate (Day (LocalTime z x)) (MakeTime 23 59 59 999)"




definition on_clock :: "zone \<Rightarrow> int \<Rightarrow> bool" where
  "on_clock z w = (LocalTime z (UTC z w) = w)"

definition day_kept :: "zone \<Rightarrow> int \<Rightarrow> bool" where
  "day_kept z w = (Day (LocalTime z (UTC z w)) = Day w)"

definition offsets :: "zone \<Rightarrow> int list" where
  "offsets z = standard z # map snd (transitions z)"

definition offsets_within_a_day :: "zone \<Rightarrow> bool" where
  "offsets_within_a_day z =
     list_all (\<lambda>a. list_all (\<lambda>b. a - b < msPerDay) (offsets z)) (offsets z)"

section \<open>Example inputs\<close>

text \<open>
  A request at 2025-07-18T15:00:00Z in a zone that keeps offset 0. The snapshot is one
  hour old (the stale one 24 hours and one minute); the export is a small document with
  records of that day and one of the day before; every random number is one half. The
  last environment is the same request made on 2025-12-31 at 23:30 with no snapshot.
\<close>

text \<open>
  Two zones with the clock changes of 2025. In the first (New York) the clocks go from
  02:00 to 03:00 on 9 March, at 07:00 UTC, and from 02:00 back to 01:00 on 2 November, at
  06:00 UTC. In the second (Havana) they go from 00:00 to 01:00 on 9 March, at 05:00 UTC,
  and from 01:00 back to 00:00 on 2 November, at 05:00 UTC: that 9 March has no midnight.
  Both are 5 hours behind UTC in winter and 4 hours in summer.
\<close>

definition new_york :: zone where
  "new_york =
     \<lparr>standard = - 18000000,
      transitions =
        [(instant 2025 3 9 7 0 0 0, - 14400000), (instant 2025 11 2 6 0 0 0, - 18000000)]\<rparr>"


definition fresh_snapshot :: iPhoneHealthData where
  "fresh_snapshot =
     \<lparr>iSteps = Some 8000, iHeartRate = Some 72, iSleepHours = Some 6.5,
      iActiveCalories = Some 350, iTimestamp = Some (Date (instant 2025 7 18 14 0 0 0))\<rparr>"

definition stale_snapshot :: iPhoneHealthData where
  "stale_snapshot = fresh_snapshot\<lparr>iTimestamp := Some (Date (instant 2025 7 17 14 59 0 0))\<rparr>"

definition morning_snapshot :: iPhoneHealthData where
  "morning_snapshot =
     \<lparr>iSteps = Some 120, iHeartRate = Some 64, iSleepHours = Some 0,
      iActiveCalories = Some 0, iTimestamp = Some (Date (instant 2025 7 18 7 0 0 0))\<rparr>"

definition example_records :: "HealthRecord list" where
  "example_records =
     [\<lparr>rtype = ''HKQuantityTypeIdentifierStepCount'', rvalue = 1200,
        startDate = instant 2025 7 18 9 0 0 0, endDate = instant 2025 7 18 9 30 0 0\<rparr>,
      \<lparr>rtype = ''HKQuantityTypeIdentifierStepCount'', rvalue = 800,
        startDate = instant 2025 7 18 12 0 0 0, endDate = instant 2025 7 18 12 20 0 0\<rparr>,
      \<lparr>rtype = ''HKQuantityTypeIdentifierStepCount'', rvalue = 5000,
        startDate = instant 2025 7 17 12 0 0 0, endDate = instant 2025 7 17 13 0 0 0\<rparr>,
      \<lparr>rtype = ''HKQuantityTypeIdentifierHeartRate'', rvalue = 70,
        startDate = instant 2025 7 18 9 0 0 0, endDate = instant 2025 7 18 9 0 0 0\<rparr>,
      \<lparr>rtype = ''HKQuantityTypeIdentifierHeartRate'', rvalue = 95,
        startDate = instant 2025 7 18 13 0 0 0, endDate = instant 2025 7 18 13 0 0 0\<rparr>,
      \<lparr>rtype = ''HKQuantityTypeIdentifierRestingHeartRate'', rvalue = 58,
        startDate = instant 2025 7 18 8 0 0 0, endDate = instant 2025 7 18 8 0 0 0\<rparr>,
      \<lparr>rtype = ''HKCategoryTypeIdentifierSleepAnalysis'', rvalue = 0,
        startDate = instant 2025 7 18 0 30 0 0, endDate = instant 2025 7 18 7 0 0 0\<rparr>,
      \<lparr>rtype = ''HKQuantityTypeIdentifierActiveEnergyBurned'', rvalue = 250.4,
        startDate = instant 2025 7 18 9 0 0 0, endDate = instant 2025 7 18 9 30 0 0\<rparr>]"

definition example_export :: export_file where
  "example_export =
     \<lparr>statSize = Some 2048,
      firstChunk = Some ''<?xml version=1.0 encoding=UTF-8?><HealthData locale=en_US>'',
      fullContent = Document example_records [\<lparr>workoutStart = instant 2025 7 18 7 30 0 0\<rparr>]\<rparr>"

definition example_env :: env where
  "example_env =
     \<lparr>now = instant 2025 7 18 15 0 0 0, tza = fixed_zone 0, iCloud = Snapshot fresh_snapshot,
      exportXml = Some example_export, random = (\<lambda>i. 1 / 2)\<rparr>"

definition export_env :: env where
  "export_env = example_env\<lparr>iCloud := NoSnapshot\<rparr>"

definition truncated_export :: export_file where
  "truncated_export = example_export\<lparr>fullContent := NotWellFormed\<rparr>"

definition no_snapshot_env :: env where
  "no_snapshot_env = example_env\<lparr>iCloud := NoSnapshot, exportXml := Some truncated_export\<rparr>"

definition oversized_export :: export_file where
  "oversized_export = example_export\<lparr>statSize := Some 104857601\<rparr>"

definition negative_steps_export :: export_file where
  "negative_steps_export =
     example_export\<lparr>fullContent :=
       Document
         [\<lparr>rtype = ''HKQuantityTypeIdentifierStepCount'', rvalue = - 100,
           startDate = instant 2025 7 18 9 0 0 0, endDate = instant 2025 7 18 9 30 0 0\<rparr>]
         []\<rparr>"

definition new_years_eve_env :: env where
  "new_years_eve_env = example_env\<lparr>now := instant 2025 12 31 23 30 0 0, iCloud := NoSnapshot\<rparr>"

section \<open>Arithmetic of the platform functions\<close>

lemma Math_floor_Ints: "Math_floor x \<in> \<int>"
  by (simp add: Math_floor_def)

lemma Math_round_Ints: "Math_round x \<in> \<int>"
  by (simp add: Math_round_def)

lemma Math_round_nonneg: "0 \<le> x \<Longrightarrow> 0 \<le> Math_round x"
  by (simp add: Math_round_def)

lemma Math_round_mono: "x \<le> y \<Longrightarrow> Math_round x \<le> Math_round y"
  by (simp add: Math_round_def floor_mono)

lemma Math_round_pos: "1 / 2 \<le> x \<Longrightarrow> 1 \<le> Math_round x"
proof -
  assume "1 / 2 \<le> x"
  then have "1 \<le> \<lfloor>x + 1 / 2\<rfloor>"
    by (simp add: le_floor_iff)
  then show ?thesis
    unfolding Math_round_def by (metis of_int_1 of_int_le_iff)
qed

lemma draw_floor:
  assumes "0 \<le> r" "r < 1" "0 < n"
  shows "0 \<le> Math_floor (r * real_of_int n) \<and> Math_floor (r * real_of_int n) \<le> real_of_int n - 1"
proof -
  from assms have "r * real_of_int n < real_of_int n"
    by simp
  then have "\<lfloor>r * real_of_int n\<rfloor> < n"
    by (simp add: floor_less_iff)
  then have "real_of_int \<lfloor>r * real_of_int n\<rfloor> \<le> real_of_int (n - 1)"
    by (intro of_int_le_iff [THEN iffD2]) simp
  moreover from assms have "0 \<le> r * real_of_int n"
    by simp
  ultimately show ?thesis
    by (simp add: Math_floor_def)
qed

lemma smod_bounds: "0 \<le> s \<Longrightarrow> 0 < k \<Longrightarrow> 0 \<le> s smod k \<and> s smod k < (k::int)"
  by (simp add: smod_mod_positive)

lemma mult_div_le_int: "0 < b \<Longrightarrow> b * (a div b) \<le> (a::int)"
  using mult_div_mod_eq [of b a] pos_mod_sign [of b a] by linarith

lemma lt_mult_div_int: "0 < b \<Longrightarrow> (a::int) < b * (a div b) + b"
  using mult_div_mod_eq [of b a] pos_mod_bound [of b a] by linarith

lemma foldl_plus: "foldl (\<lambda>total r. total + f r) a xs = a + sum_list (map f xs)"
  for a :: real
  by (induction xs arbitrary: a) simp_all

lemma foldl_plus_nonneg:
  "0 \<le> a \<Longrightarrow> (\<forall>r\<in>set xs. 0 \<le> f r) \<Longrightarrow> 0 \<le> foldl (\<lambda>total r. total + f r) a xs"
  for a :: real
  by (induction xs arbitrary: a) simp_all

lemma sum_list_Ints: "(\<forall>x\<in>set xs. x \<in> \<int>) \<Longrightarrow> sum_list xs \<in> \<int>"
  for xs :: "real list"
  by (induction xs) simp_all

lemma sum_list_lower: "(\<forall>x\<in>set xs. c \<le> x) \<Longrightarrow> real (length xs) * c \<le> sum_list xs"
  by (induction xs) (simp_all add: algebra_simps)

lemma sum_list_upper: "(\<forall>x\<in>set xs. x \<le> c) \<Longrightarrow> sum_list xs \<le> real (length xs) * c"
  by (induction xs) (simp_all add: algebra_simps)

lemma Math_max_ge_first: "x \<le> Math_max x ys"
proof (induction ys arbitrary: x)
  case Nil
  show ?case by simp
next
  case (Cons y ys)
  have "x \<le> max x y" by simp
  also have "max x y \<le> Math_max (max x y) ys" by (rule Cons.IH)
  finally show ?case by simp
qed

lemma Math_max_ge_rest: "y \<in> set ys \<Longrightarrow> y \<le> Math_max x ys"
proof (induction ys arbitrary: x)
  case Nil
  then show ?case by simp
next
  case (Cons a ys)
  show ?case
  proof (cases "y = a")
    case True
    have "a \<le> max x a" by simp
    also have "max x a \<le> Math_max (max x a) ys" by (rule Math_max_ge_first)
    finally show ?thesis using True by simp
  next
    case False
    with Cons.prems have "y \<in> set ys" by simp
    then show ?thesis using Cons.IH by simp
  qed
qed

lemma mean_le_Math_max:
  "sum_list (h # hs) / real (length (h # hs)) \<le> Math_max h hs"
proof -
  have "\<forall>x\<in>set (h # hs). x \<le> Math_max h hs"
    using Math_max_ge_first [of h hs] Math_max_ge_rest [of _ hs h] by auto
  then have "sum_list (h # hs) \<le> real (length (h # hs)) * Math_max h hs"
    by (rule sum_list_upper)
  then show ?thesis
    by (simp add: field_simps)
qed

lemma mean_lower:
  assumes "\<forall>x\<in>set (h # hs). c \<le> x"
  shows "c \<le> sum_list (h # hs) / real (length (h # hs))"
proof -
  have "real (length (h # hs)) * c \<le> sum_list (h # hs)"
    using assms by (rule sum_list_lower)
  then show ?thesis
    by (simp add: field_simps)
qed

section \<open>The calendar\<close>

text \<open>
  Inside an era the year is between 0 and 399 and the day of the year, counted from March,
  between 0 and 365. So the civil date of a day number leads back to it: the first of the
  month of a day is the day of the month minus 1 days before it.
\<close>

lemma day_of_era_bounds: "0 \<le> day_of_era z \<and> day_of_era z \<le> 146096"
proof -
  have "(z + 719468) mod 146097 < 146097"
    by simp
  then show ?thesis
    by (simp add: day_of_era_def)
qed

lemma year_of_era_bounds:
  assumes "0 \<le> doe" "doe \<le> 146096"
  shows "0 \<le> year_of_era doe \<and> year_of_era doe \<le> 399"
proof -
  define q1 q2 q3 where "q1 = doe div 1460" and "q2 = doe div 36524" and "q3 = doe div 146096"
  define a where "a = doe - q1 + q2 - q3"
  have y: "year_of_era doe = a div 365"
    by (simp add: year_of_era_def a_def q1_def q2_def q3_def)
  have q1: "1460 * q1 \<le> doe" "doe < 1460 * q1 + 1460"
    unfolding q1_def by (rule mult_div_le_int, simp) (rule lt_mult_div_int, simp)
  have q2: "36524 * q2 \<le> doe" "doe < 36524 * q2 + 36524"
    unfolding q2_def by (rule mult_div_le_int, simp) (rule lt_mult_div_int, simp)
  have q3: "146096 * q3 \<le> doe" "doe < 146096 * q3 + 146096"
    unfolding q3_def by (rule mult_div_le_int, simp) (rule lt_mult_div_int, simp)
  have "0 \<le> a"
    unfolding a_def using assms q1 q2 q3 by linarith
  then have low: "0 \<le> a div 365"
    by (simp add: pos_imp_zdiv_nonneg_iff)
  have "a < 146000"
  proof (cases "q3 \<le> 0")
    case True
    with q2 q3 have "q2 \<le> 3" by linarith
    with True q1 q3 assms show ?thesis
      unfolding a_def by linarith
  next
    case False
    with q3 assms have "doe = 146096" by linarith
    then show ?thesis
      by (simp add: a_def q1_def q2_def q3_def)
  qed
  moreover have "365 * (a div 365) \<le> a"
    by (rule mult_div_le_int) simp
  ultimately have "a div 365 \<le> 399"
    by linarith
  with low y show ?thesis
    by simp
qed

lemma day_of_year_nonneg:
  assumes "0 \<le> doe"
  shows "0 \<le> day_of_year doe"
proof (rule ccontr)
  define y where "y = year_of_era doe"
  assume "\<not> 0 \<le> day_of_year doe"
  then have neg: "\<not> 365 * y + y div 4 - y div 100 \<le> doe"
    by (simp add: day_of_year_def y_def)
  have q3: "0 \<le> doe div 146096"
    using assms(1) by (simp add: pos_imp_zdiv_nonneg_iff)
  have q21: "doe div 36524 \<le> doe div 1460"
    using assms(1) by (intro zdiv_mono2) simp_all
  have a: "365 * y \<le> doe - doe div 1460 + doe div 36524 - doe div 146096"
    unfolding y_def year_of_era_def by (rule mult_div_le_int) simp
  with q3 q21 have low: "365 * y \<le> doe"
    by linarith
  then have "(365 * y) div (365 * 4) \<le> doe div (365 * 4)"
    by (intro zdiv_mono1) simp_all
  moreover have "(365 * y) div (365 * 4) = y div 4"
    by (rule div_mult_mult1) simp
  ultimately have q1: "y div 4 \<le> doe div 1460"
    by simp
  have "4 * (y div 4) \<le> y"
    by (rule mult_div_le_int) simp
  moreover have "y < 100 * (y div 100) + 100"
    by (rule lt_mult_div_int) simp
  ultimately have "365 * y + y div 4 - y div 100 < 36524 * (y div 100) + 36524"
    by linarith
  with neg have "doe < 36524 * (y div 100) + 36524"
    by linarith
  moreover have "36524 * (doe div 36524) \<le> doe"
    by (rule mult_div_le_int) simp
  ultimately have q2: "doe div 36524 \<le> y div 100"
    by linarith
  from a q1 q2 q3 neg show False
    by linarith
qed

lemma day_of_year_le:
  assumes "0 \<le> doe" "doe \<le> 146096"
  shows "day_of_year doe \<le> 365"
proof -
  define q1 q2 q3 where "q1 = doe div 1460" and "q2 = doe div 36524" and "q3 = doe div 146096"
  define a where "a = doe - q1 + q2 - q3"
  define y where "y = a div 365"
  have ye: "year_of_era doe = y"
    by (simp add: year_of_era_def y_def a_def q1_def q2_def q3_def)
  have q1: "1460 * q1 \<le> doe" "doe < 1460 * q1 + 1460"
    unfolding q1_def by (rule mult_div_le_int, simp) (rule lt_mult_div_int, simp)
  have q2: "36524 * q2 \<le> doe" "doe < 36524 * q2 + 36524"
    unfolding q2_def by (rule mult_div_le_int, simp) (rule lt_mult_div_int, simp)
  have q3: "146096 * q3 \<le> doe" "doe < 146096 * q3 + 146096"
    unfolding q3_def by (rule mult_div_le_int, simp) (rule lt_mult_div_int, simp)
  have ya: "365 * y \<le> a" "a < 365 * y + 365"
    unfolding y_def by (rule mult_div_le_int, simp) (rule lt_mult_div_int, simp)
  have y4: "4 * (y div 4) \<le> y" "y < 4 * (y div 4) + 4"
    by (rule mult_div_le_int, simp) (rule lt_mult_div_int, simp)
  have y100: "100 * (y div 100) \<le> y" "y < 100 * (y div 100) + 100"
    by (rule mult_div_le_int, simp) (rule lt_mult_div_int, simp)
  show ?thesis
  proof (cases "q3 \<le> 0")
    case True
    have quarter: "q1 \<le> 1 + y div 4"
      using assms q1 q2 q3 ya y4 True unfolding a_def by linarith
    have century: "y div 100 \<le> q2"
    proof (rule ccontr)
      assume "\<not> y div 100 \<le> q2"
      then have "q2 + 1 \<le> y div 100" by simp
      with assms q1 q2 q3 ya y100 True show False
        unfolding a_def by linarith
    qed
    from quarter century ya True q3 assms show ?thesis
      unfolding day_of_year_def ye a_def by linarith
  next
    case False
    with q3 assms have "doe = 146096" by linarith
    then show ?thesis
      by (simp add: day_of_year_def year_of_era_def)
  qed
qed

lemma march_month_bounds:
  assumes "0 \<le> doy" "doy \<le> 365"
  shows "0 \<le> march_month doy \<and> march_month doy \<le> 11"
proof -
  have "153 * march_month doy \<le> 5 * doy + 2" "5 * doy + 2 < 153 * march_month doy + 153"
    unfolding march_month_def by (rule mult_div_le_int, simp) (rule lt_mult_div_int, simp)
  with assms show ?thesis
    by linarith
qed

lemma days_from_civil_march_based:
  assumes "0 \<le> yoe" "yoe \<le> 399" "0 \<le> mp" "mp \<le> 11"
  defines "m \<equiv> (if mp < 10 then mp + 3 else mp - 9)"
  shows "days_from_civil (if m \<le> 2 then yoe + e * 400 + 1 else yoe + e * 400) m d =
    e * 146097 + (yoe * 365 + yoe div 4 - yoe div 100 + (153 * mp + 2) div 5 + d - 1) - 719468"
proof -
  have y: "(if m \<le> 2 then (if m \<le> 2 then yoe + e * 400 + 1 else yoe + e * 400) - 1
           else (if m \<le> 2 then yoe + e * 400 + 1 else yoe + e * 400)) = yoe + e * 400"
    by simp
  have mp: "(if m > 2 then m - 3 else m + 9) = mp"
    using assms(3,4) by (simp add: m_def)
  have "(yoe + e * 400) div 400 = e" "(yoe + e * 400) mod 400 = yoe"
    using assms(1,2) by simp_all
  then show ?thesis
    unfolding days_from_civil_def y Let_def mp by simp
qed

lemma MakeDay_of_own_month:
  "MakeDay (YearFromTime x) (MonthFromTime x) dt = Day x - DateFromTime x + dt"
proof -
  define z where "z = Day x"
  define doe where "doe = day_of_era z"
  define yoe where "yoe = year_of_era doe"
  define doy where "doy = day_of_year doe"
  define mp where "mp = march_month doy"
  define m where "m = (if mp < 10 then mp + 3 else mp - 9)"
  have doe: "0 \<le> doe" "doe \<le> 146096"
    using day_of_era_bounds [of z] by (simp_all add: doe_def)
  have yoe: "0 \<le> yoe" "yoe \<le> 399"
    using year_of_era_bounds [OF doe] by (simp_all add: yoe_def)
  have doy: "0 \<le> doy" "doy \<le> 365"
    using day_of_year_nonneg [OF doe(1)] day_of_year_le [OF doe] by (simp_all add: doy_def)
  have mp: "0 \<le> mp" "mp \<le> 11"
    using march_month_bounds [OF doy] by (simp_all add: mp_def)
  have m: "1 \<le> m" "m \<le> 12"
    using mp by (simp_all add: m_def)
  have civil: "civil_from_days z =
      (if m \<le> 2 then yoe + era z * 400 + 1 else yoe + era z * 400, m,
       doy - (153 * mp + 2) div 5 + 1)"
    by (simp add: civil_from_days_def Let_def m_def mp_def doy_def yoe_def doe_def)
  have year: "YearFromTime x = (if m \<le> 2 then yoe + era z * 400 + 1 else yoe + era z * 400)"
    and month: "MonthFromTime x = m - 1"
    and date: "DateFromTime x = doy - (153 * mp + 2) div 5 + 1"
    by (simp_all add: YearFromTime_def MonthFromTime_def DateFromTime_def civil z_def [symmetric])
  have idx: "(m - 1) div 12 = 0" "(m - 1) mod 12 + 1 = m"
    using m by simp_all
  have "z + 719468 = era z * 146097 + doe"
    unfolding era_def doe_def day_of_era_def by simp
  then have z: "z = era z * 146097 + doe - 719468"
    by simp
  have doy_eq: "doy = doe - (365 * yoe + yoe div 4 - yoe div 100)"
    by (simp add: doy_def day_of_year_def yoe_def)
  have "MakeDay (YearFromTime x) (MonthFromTime x) dt =
      days_from_civil (if m \<le> 2 then yoe + era z * 400 + 1 else yoe + era z * 400) m 1 + dt - 1"
    by (simp add: MakeDay_def year month idx)
  also have "\<dots> = era z * 146097 +
      (yoe * 365 + yoe div 4 - yoe div 100 + (153 * mp + 2) div 5 + 1 - 1) - 719468 + dt - 1"
    unfolding m_def using days_from_civil_march_based [OF yoe mp, of "era z" 1] by simp
  also have "\<dots> = z - DateFromTime x + dt"
    using z doy_eq date by linarith
  finally show ?thesis
    by (simp add: z_def)
qed

text \<open>
  The month index is at least 0 and the day of the month at least 1: the seed of the
  generated data is positive at every instant and in every zone.
\<close>

lemma DateFromTime_pos: "1 \<le> DateFromTime x"
proof -
  define doy where "doy = day_of_year (day_of_era (Day x))"
  have "153 * march_month doy \<le> 5 * doy + 2"
    unfolding march_month_def by (rule mult_div_le_int) simp
  then have "(153 * march_month doy + 2) div 5 \<le> (5 * doy + 4) div 5"
    by (intro zdiv_mono1) simp_all
  also have "(5 * doy + 4) div 5 = doy"
    by simp
  finally show ?thesis
    by (simp add: DateFromTime_def civil_from_days_def Let_def doy_def)
qed

lemma MonthFromTime_nonneg: "0 \<le> MonthFromTime x"
proof -
  define doy where "doy = day_of_year (day_of_era (Day x))"
  have "0 \<le> day_of_era (Day x)"
    by (simp add: day_of_era_def)
  then have "0 \<le> doy"
    unfolding doy_def by (rule day_of_year_nonneg)
  then have "0 \<le> march_month doy"
    by (simp add: march_month_def pos_imp_zdiv_nonneg_iff)
  then show ?thesis
    by (simp add: MonthFromTime_def civil_from_days_def Let_def doy_def)
qed

lemma HourFromTime_nonneg: "0 \<le> HourFromTime x"
  by (simp add: HourFromTime_def)

lemma mockSeed_pos: "1 \<le> mockSeed z x"
  using DateFromTime_pos [of "LocalTime z x"] MonthFromTime_nonneg [of "LocalTime z x"]
    HourFromTime_nonneg [of "LocalTime z x"]
  by (simp add: mockSeed_def getDate_def getMonth_def getHours_def)

text \<open>The instants of the examples, their window and their seeds.\<close>

lemma example_instants:
  "instant 2025 7 18 15 0 0 0 = 1752850800000"
  "instant 2025 7 18 14 0 0 0 = 1752847200000"
  "instant 2025 7 17 14 59 0 0 = 1752764340000"
  "instant 2025 7 18 9 0 0 0 = 1752829200000"
  "instant 2025 7 18 9 30 0 0 = 1752831000000"
  "instant 2025 7 18 12 0 0 0 = 1752840000000"
  "instant 2025 7 18 12 20 0 0 = 1752841200000"
  "instant 2025 7 17 12 0 0 0 = 1752753600000"
  "instant 2025 7 17 13 0 0 0 = 1752757200000"
  "instant 2025 7 18 13 0 0 0 = 1752843600000"
  "instant 2025 7 18 8 0 0 0 = 1752825600000"
  "instant 2025 7 18 0 30 0 0 = 1752798600000"
  "instant 2025 7 18 7 0 0 0 = 1752822000000"
  "instant 2025 7 18 7 30 0 0 = 1752823800000"
  by code_simp+

lemma example_window:
  "getDateRange (fixed_zone 0) 1752850800000 ''today'' = (1752796800000, 1752883199999)"
  by code_simp

lemma example_seed: "mockSeed (fixed_zone 0) 1752850800000 = 39"
  by code_simp

lemma mockSeed_new_years_eve: "mockSeed (fixed_zone 0) (instant 2025 12 31 23 30 0 0) = 65"
  by code_simp

section \<open>The time window\<close>

lemma Day_MakeDate: "0 \<le> x \<Longrightarrow> x < msPerDay \<Longrightarrow> Day (MakeDate d x) = d"
  by (simp add: Day_def MakeDate_def msPerDay_def)

lemma TimeWithinDay_MakeDate:
  "0 \<le> x \<Longrightarrow> x < msPerDay \<Longrightarrow> TimeWithinDay (MakeDate d x) = x"
  by (simp add: TimeWithinDay_def MakeDate_def msPerDay_def)

lemma TimeWithinDay_bounds: "0 \<le> TimeWithinDay x \<and> TimeWithinDay x < msPerDay"
  by (simp add: TimeWithinDay_def msPerDay_def)



lemma MakeTime_midnight: "MakeTime 0 0 0 0 = 0"
  by (simp add: MakeTime_def)









lemma LocalTZA_fixed_zone: "LocalTZA (fixed_zone k) t isUTC = k"
  by (simp add: LocalTZA_def fixed_zone_def)

lemma on_clock_fixed_zone: "on_clock (fixed_zone k) w"
  by (simp add: on_clock_def LocalTime_def UTC_def LocalTZA_fixed_zone)

lemma on_clock_day_kept: "on_clock z w \<Longrightarrow> day_kept z w"
  by (simp add: on_clock_def day_kept_def)

lemma offsets_within_a_day_fixed_zone: "offsets_within_a_day (fixed_zone k)"
  by (simp add: offsets_within_a_day_def offsets_def fixed_zone_def msPerDay_def)

text \<open>The two ends of the window, as the instants of local time values.\<close>

lemma setDate_back: "setDate z x (getDate z x - k) = UTC z (same_time_before z x k)"
  by (simp add: setDate_def Let_def MakeDay_of_own_month getDate_def same_time_before_def)

lemma Day_same_time_before: "Day (same_time_before z x k) = Day (LocalTime z x) - k"
  using TimeWithinDay_bounds [of "LocalTime z x"]
  by (simp only: same_time_before_def Day_MakeDate)

lemma startDate_today: "fst (getDateRange z x ''today'') = UTC z (midnight_before z x 0)"
  by (simp add: getDateRange_def setHours_def MakeTime_midnight midnight_before_def)

lemma startDate_week:
  "fst (getDateRange z x ''week'') =
     UTC z (MakeDate (Day (LocalTime z (UTC z (same_time_before z x 7)))) 0)"
  by (simp add: getDateRange_def setHours_def MakeTime_midnight setDate_back)

lemma startDate_month:
  "fst (getDateRange z x ''month'') =
     UTC z (MakeDate (Day (LocalTime z (UTC z (same_time_before z x 30)))) 0)"
  by (simp add: getDateRange_def setHours_def MakeTime_midnight setDate_back)

lemma startDate_week_kept:
  "day_kept z (same_time_before z x 7) \<Longrightarrow>
   fst (getDateRange z x ''week'') = UTC z (midnight_before z x 7)"
  by (simp add: startDate_week day_kept_def Day_same_time_before midnight_before_def)

lemma startDate_month_kept:
  "day_kept z (same_time_before z x 30) \<Longrightarrow>
   fst (getDateRange z x ''month'') = UTC z (midnight_before z x 30)"
  by (simp add: startDate_month day_kept_def Day_same_time_before midnight_before_def)

lemma endDate_any: "snd (getDateRange z x timeframe) = UTC z (end_of_day z x)"
  by (simp add: getDateRange_def setHours_def Let_def end_of_day_def)

lemma midnight_on_clock:
  assumes "on_clock z (midnight_before z x k)"
  shows "Day (LocalTime z (UTC z (midnight_before z x k))) = Day (LocalTime z x) - k"
    and "TimeWithinDay (LocalTime z (UTC z (midnight_before z x k))) = 0"
proof -
  have eq: "LocalTime z (UTC z (midnight_before z x k)) = midnight_before z x k"
    using assms by (simp add: on_clock_def)
  have zero: "(0::int) < msPerDay"
    by (simp add: msPerDay_def)
  show "Day (LocalTime z (UTC z (midnight_before z x k))) = Day (LocalTime z x) - k"
    by (subst eq) (simp add: midnight_before_def Day_MakeDate zero)
  show "TimeWithinDay (LocalTime z (UTC z (midnight_before z x k))) = 0"
    by (subst eq) (simp add: midnight_before_def TimeWithinDay_MakeDate zero)
qed

lemma end_of_day_on_clock:
  assumes "on_clock z (end_of_day z x)"
  shows "Day (LocalTime z (UTC z (end_of_day z x))) = Day (LocalTime z x)"
    and "TimeWithinDay (LocalTime z (UTC z (end_of_day z x))) = MakeTime 23 59 59 999"
proof -
  have eq: "LocalTime z (UTC z (end_of_day z x)) = end_of_day z x"
    using assms by (simp add: on_clock_def)
  have last: "(0::int) \<le> MakeTime 23 59 59 999" "MakeTime 23 59 59 999 < msPerDay"
    by (simp_all add: MakeTime_def msPerDay_def)
  show "Day (LocalTime z (UTC z (end_of_day z x))) = Day (LocalTime z x)"
    by (subst eq) (simp only: end_of_day_def Day_MakeDate last)
  show "TimeWithinDay (LocalTime z (UTC z (end_of_day z x))) = MakeTime 23 59 59 999"
    by (subst eq) (simp only: end_of_day_def TimeWithinDay_MakeDate last)
qed




text \<open>
  In a zone whose clocks never change every local time is on the clock, and the window
  is the one of the specification at every instant.
\<close>

lemma window_fixed_zone:
  "Day (LocalTime (fixed_zone k) (fst (getDateRange (fixed_zone k) x ''today''))) =
     Day (LocalTime (fixed_zone k) x) \<and>
   TimeWithinDay (LocalTime (fixed_zone k) (fst (getDateRange (fixed_zone k) x ''today''))) = 0 \<and>
   Day (LocalTime (fixed_zone k) (fst (getDateRange (fixed_zone k) x ''week''))) =
     Day (LocalTime (fixed_zone k) x) - 7 \<and>
   TimeWithinDay (LocalTime (fixed_zone k) (fst (getDateRange (fixed_zone k) x ''week''))) = 0 \<and>
   Day (LocalTime (fixed_zone k) (fst (getDateRange (fixed_zone k) x ''month''))) =
     Day (LocalTime (fixed_zone k) x) - 30 \<and>
   TimeWithinDay (LocalTime (fixed_zone k) (fst (getDateRange (fixed_zone k) x ''month''))) = 0 \<and>
   Day (LocalTime (fixed_zone k) (snd (getDateRange (fixed_zone k) x timeframe))) =
     Day (LocalTime (fixed_zone k) x) \<and>
   TimeWithinDay (LocalTime (fixed_zone k) (snd (getDateRange (fixed_zone k) x timeframe))) =
     MakeTime 23 59 59 999"
  by (simp only: startDate_today startDate_week_kept startDate_month_kept endDate_any
      on_clock_day_kept on_clock_fixed_zone midnight_on_clock end_of_day_on_clock diff_zero
      simp_thms)




lemma window_new_york:
  "getDateRange new_york (instant 2025 3 12 15 0 0 0) ''today'' =
     (instant 2025 3 12 4 0 0 0, instant 2025 3 13 3 59 59 999)"
  "getDateRange new_york (instant 2025 3 12 15 0 0 0) ''week'' =
     (instant 2025 3 5 5 0 0 0, instant 2025 3 13 3 59 59 999)"
  "getDateRange new_york (instant 2025 3 12 15 0 0 0) ''month'' =
     (instant 2025 2 10 5 0 0 0, instant 2025 3 13 3 59 59 999)"
  by code_simp+







section \<open>The extractor\<close>

text \<open>
  C4. With no records of any kind and no workouts the extractor returns, for every
  timeframe and instant, 0 steps, the heart-rate triple 60, 80, 120, 7.5 hours of sleep,
  0 active calories and 0 workouts.
\<close>

theorem extract_empty:
  "extractHealthMetrics z t [] [] timeframe =
     \<lparr>steps = 0, heartRate = \<lparr>resting = 60, average = 80, max' = 120\<rparr>,
      sleepHours = 7.5, activeCalories = 0, workouts = 0\<rparr>"
  by (simp add: extractHealthMetrics_def extractSteps_def extractHeartRate_def
      extractSleep_def extractActiveCalories_def Math_round_def split: prod.split)

text \<open>On plausible records every metric of the extractor is well formed.\<close>

lemma extractSteps_well_formed:
  assumes "\<forall>r\<in>set records. plausible_record r"
  shows "nonneg_integer (extractSteps records)"
proof -
  let ?xs = "map rvalue (filter (\<lambda>r. rtype r = ''HKQuantityTypeIdentifierStepCount'') records)"
  have "\<forall>x\<in>set ?xs. x \<in> \<int>" and "\<forall>x\<in>set ?xs. 0 \<le> x"
    using assms by (auto simp add: plausible_record_def)
  then have "sum_list ?xs \<in> \<int>" and "0 \<le> sum_list ?xs"
    by (blast intro: sum_list_Ints sum_list_nonneg)+
  then show ?thesis
    by (simp add: extractSteps_def foldl_plus nonneg_integer_def)
qed

lemma extractActiveCalories_well_formed:
  assumes "\<forall>r\<in>set records. plausible_record r"
  shows "nonneg_integer (extractActiveCalories records)"
proof -
  let ?xs = "map rvalue (filter (\<lambda>r. rtype r = ''HKQuantityTypeIdentifierActiveEnergyBurned'') records)"
  have "\<forall>x\<in>set ?xs. 0 \<le> x"
    using assms by (auto simp add: plausible_record_def)
  then have "0 \<le> sum_list ?xs"
    by (blast intro: sum_list_nonneg)
  then show ?thesis
    by (simp add: extractActiveCalories_def foldl_plus nonneg_integer_def Math_round_Ints
        Math_round_nonneg)
qed

lemma extractSleep_nonneg:
  assumes "\<forall>r\<in>set records. plausible_record r"
  shows "0 \<le> extractSleep records"
proof -
  define minutes where "minutes =
    foldl (\<lambda>total r. total + real_of_int (endDate r - startDate r) / (1000 * 60)) 0
      (filter (\<lambda>r. rtype r = ''HKCategoryTypeIdentifierSleepAnalysis'') records)"
  have "0 \<le> minutes"
    unfolding minutes_def
    by (rule foldl_plus_nonneg) (use assms in \<open>auto simp add: plausible_record_def\<close>)
  then have "0 \<le> Math_round (minutes / 60 * 10)"
    by (intro Math_round_nonneg) simp
  then show ?thesis
    unfolding extractSleep_def Let_def minutes_def [symmetric] by simp
qed

lemma extractHeartRate_well_formed:
  assumes "\<forall>r\<in>set records. plausible_record r"
  shows "positive_integer (resting (extractHeartRate records)) \<and>
         positive_integer (average (extractHeartRate records)) \<and>
         positive_integer (max' (extractHeartRate records)) \<and>
         average (extractHeartRate records) \<le> max' (extractHeartRate records)"
proof (cases "map rvalue (filter (\<lambda>r. rtype r = ''HKQuantityTypeIdentifierHeartRate'') records)")
  case Nil
  then show ?thesis
    by (simp add: extractHeartRate_def positive_integer_def)
next
  case (Cons h hs)
  let ?rest = "sort_key (\<lambda>r. - startDate r)
                 (filter (\<lambda>r. rtype r = ''HKQuantityTypeIdentifierRestingHeartRate'') records)"
  have "\<forall>x\<in>set (h # hs). 1 / 2 \<le> x"
    unfolding Cons [symmetric] using assms by (auto simp add: plausible_record_def)
  then have mean: "1 / 2 \<le> sum_list (h # hs) / real (length (h # hs))"
    by (rule mean_lower)
  have avg: "1 \<le> Math_round (sum_list (h # hs) / real (length (h # hs)))"
    using mean by (rule Math_round_pos)
  have le: "Math_round (sum_list (h # hs) / real (length (h # hs))) \<le> Math_round (Math_max h hs)"
    using mean_le_Math_max by (rule Math_round_mono)
  have rest: "1 \<le> (case ?rest of [] \<Rightarrow> 60 | r # _ \<Rightarrow> Math_round (rvalue r))"
  proof (cases ?rest)
    case Nil
    then show ?thesis by simp
  next
    case (Cons r rs)
    then have "r \<in> set ?rest"
      by simp
    then have "plausible_record r \<and> rtype r = ''HKQuantityTypeIdentifierRestingHeartRate''"
      using assms by simp
    then have "1 \<le> Math_round (rvalue r)"
      by (intro Math_round_pos) (simp add: plausible_record_def)
    with Cons show ?thesis by simp
  qed
  have rest_int: "(case ?rest of [] \<Rightarrow> 60 | r # _ \<Rightarrow> Math_round (rvalue r)) \<in> \<int>"
    by (simp add: Math_round_Ints split: list.split)
  show ?thesis
    using avg le rest rest_int Cons
    by (simp add: extractHeartRate_def positive_integer_def Math_round_Ints foldl_plus)
qed

lemma extract_well_formed:
  assumes "\<forall>r\<in>set records. plausible_record r"
  shows "well_formed_summary (extractHealthMetrics z x records wkts timeframe)"
proof -
  obtain startD endD where range: "getDateRange z x timeframe = (startD, endD)"
    by (cases "getDateRange z x timeframe")
  let ?filtered = "filter (\<lambda>r. startD \<le> startDate r \<and> startDate r \<le> endD) records"
  have pl: "\<forall>r\<in>set ?filtered. plausible_record r"
    using assms by simp
  show ?thesis
    using extractSteps_well_formed [OF pl] extractActiveCalories_well_formed [OF pl]
      extractSleep_nonneg [OF pl] extractHeartRate_well_formed [OF pl]
    by (simp add: extractHealthMetrics_def range well_formed_summary_def nonneg_integer_def
        Let_def)
qed

lemma example_extraction:
  "extractHealthMetrics (fixed_zone 0) (instant 2025 7 18 15 0 0 0) example_records
     [\<lparr>workoutStart = instant 2025 7 18 7 30 0 0\<rparr>] ''today'' =
   \<lparr>steps = 2000, heartRate = \<lparr>resting = 58, average = 83, max' = 95\<rparr>,
    sleepHours = 6.5, activeCalories = 250, workouts = 1\<rparr>"
proof -
  define today where "today =
    filter (\<lambda>r. 1752796800000 \<le> startDate r \<and> startDate r \<le> 1752883199999) example_records"
  have today: "today =
      [example_records ! 0, example_records ! 1, example_records ! 3, example_records ! 4,
       example_records ! 5, example_records ! 6, example_records ! 7]"
    unfolding today_def by (simp add: example_records_def example_instants)
  have 1: "extractSteps today = 2000"
    unfolding today by (simp add: example_records_def extractSteps_def)
  have 2: "extractHeartRate today = \<lparr>resting = 58, average = 83, max' = 95\<rparr>"
    unfolding today by (simp add: example_records_def extractHeartRate_def Math_round_def)
  have 3: "extractSleep today = 6.5"
    unfolding today by (simp add: example_records_def extractSleep_def Math_round_def example_instants)
  have 4: "extractActiveCalories today = 250"
    unfolding today by (simp add: example_records_def extractActiveCalories_def Math_round_def)
  have "extractHealthMetrics (fixed_zone 0) 1752850800000 example_records
     [\<lparr>workoutStart = 1752823800000\<rparr>] ''today'' =
      \<lparr>steps = extractSteps today, heartRate = extractHeartRate today,
       sleepHours = extractSleep today, activeCalories = extractActiveCalories today,
       workouts = 1\<rparr>"
    unfolding extractHealthMetrics_def example_window today_def Let_def by simp
  then show ?thesis
    by (simp only: 1 2 3 4 example_instants)
qed

section \<open>The generated data\<close>

lemma mockToday_well_formed:
  assumes "unit_draws rnd" "0 \<le> seed"
  shows "well_formed_summary (mockToday seed rnd)"
proof -
  note d = assms(1) [unfolded unit_draws_def, rule_format]
  have f: "0 \<le> Math_floor (rnd i * real_of_int n) \<and> Math_floor (rnd i * real_of_int n) \<le> real_of_int n - 1"
    if "0 < n" for i n
    using d [of i] that by (intro draw_floor) simp_all
  have r: "0 \<le> real_of_int (seed smod k) \<and> real_of_int (seed smod k) < real_of_int k" if "0 < k" for k
    using smod_bounds [OF assms(2) that] by simp
  have s: "0 \<le> real_of_int seed"
    using assms(2) by simp
  have sleep: "0 \<le> (rnd 4 * 1.5 + 7 + of_int (seed smod 3) * 0.2) * 10"
    using d [of 4] r [of 3] by simp
  show ?thesis
    using f [of 4000 0] f [of 8 1] f [of 15 2] f [of 25 3] f [of 200 5]
      r [of 5] r [of 8] r [of 10] s Math_round_nonneg [OF sleep]
    by (simp add: well_formed_summary_def mockToday_def nonneg_integer_def positive_integer_def
        Math_floor_Ints)
qed

lemma mockWeek_well_formed:
  assumes "unit_draws rnd" "0 \<le> seed"
  shows "well_formed_summary (mockWeek seed rnd)"
proof -
  note d = assms(1) [unfolded unit_draws_def, rule_format]
  have f: "0 \<le> Math_floor (rnd i * real_of_int n) \<and> Math_floor (rnd i * real_of_int n) \<le> real_of_int n - 1"
    if "0 < n" for i n
    using d [of i] that by (intro draw_floor) simp_all
  have r: "0 \<le> real_of_int (seed smod k) \<and> real_of_int (seed smod k) < real_of_int k" if "0 < k" for k
    using smod_bounds [OF assms(2) that] by simp
  have s: "0 \<le> real_of_int seed"
    using assms(2) by simp
  have sleep: "0 \<le> (rnd 10 * 1 + 7.1 + of_int (seed smod 2) * 0.3) * 10"
    using d [of 10] r [of 2] by simp
  show ?thesis
    using f [of 1500 6] f [of 6 7] f [of 12 8] f [of 20 9] f [of 400 11] f [of 3 12]
      r [of 4] r [of 6] r [of 8] r [of 3] s Math_round_nonneg [OF sleep]
    by (simp add: well_formed_summary_def mockWeek_def nonneg_integer_def positive_integer_def
        Math_floor_Ints)
qed

lemma mockMonth_well_formed:
  assumes "unit_draws rnd" "0 \<le> seed"
  shows "well_formed_summary (mockMonth seed rnd)"
proof -
  note d = assms(1) [unfolded unit_draws_def, rule_format]
  have f: "0 \<le> Math_floor (rnd i * real_of_int n) \<and> Math_floor (rnd i * real_of_int n) \<le> real_of_int n - 1"
    if "0 < n" for i n
    using d [of i] that by (intro draw_floor) simp_all
  have r: "0 \<le> real_of_int (seed smod k) \<and> real_of_int (seed smod k) < real_of_int k" if "0 < k" for k
    using smod_bounds [OF assms(2) that] by simp
  have s: "0 \<le> real_of_int seed"
    using assms(2) by simp
  have sleep: "0 \<le> (rnd 17 * 0.8 + 7.3 + of_int (seed smod 2) * 0.2) * 10"
    using d [of 17] r [of 2] by simp
  show ?thesis
    using f [of 1000 13] f [of 4 14] f [of 8 15] f [of 15 16] f [of 1500 18] f [of 5 19]
      r [of 3] r [of 5] r [of 7] r [of 4] s Math_round_nonneg [OF sleep]
    by (simp add: well_formed_summary_def mockMonth_def nonneg_integer_def positive_integer_def
        Math_floor_Ints)
qed

lemma getRealisticMockData_cases:
  "getRealisticMockData e timeframe =
     (if timeframe = ''week'' then mockWeek (mockSeed (tza e) (now e)) (random e)
      else if timeframe = ''month'' then mockMonth (mockSeed (tza e) (now e)) (random e)
      else mockToday (mockSeed (tza e) (now e)) (random e))"
  by (simp add: getRealisticMockData_def mockData_def Let_def)

lemma getRealisticMockData_well_formed:
  assumes "unit_draws (random e)"
  shows "well_formed_summary (getRealisticMockData e timeframe)"
proof -
  have seed: "0 \<le> mockSeed (tza e) (now e)"
    using mockSeed_pos [of "tza e" "now e"] by simp
  show ?thesis
    using mockToday_well_formed [OF assms seed] mockWeek_well_formed [OF assms seed]
      mockMonth_well_formed [OF assms seed]
    by (simp add: getRealisticMockData_cases)
qed

lemma mock_calories_scaled:
  assumes "unit_draws rnd" "unit_draws rnd'" "0 \<le> seed"
  shows "activeCalories (mockToday seed rnd) < activeCalories (mockWeek seed rnd')"
    and "activeCalories (mockWeek seed rnd) < activeCalories (mockMonth seed rnd')"
proof -
  note d = assms(1) [unfolded unit_draws_def, rule_format]
  note d' = assms(2) [unfolded unit_draws_def, rule_format]
  have s: "0 \<le> real_of_int seed"
    using assms(3) by simp
  have "Math_floor (rnd 5 * real_of_int 200) \<le> real_of_int 200 - 1"
    using d [of 5] by (intro draw_floor [THEN conjunct2]) simp_all
  moreover have "0 \<le> Math_floor (rnd' 11 * real_of_int 400)"
    using d' [of 11] by (intro draw_floor [THEN conjunct1]) simp_all
  ultimately show "activeCalories (mockToday seed rnd) < activeCalories (mockWeek seed rnd')"
    using s by (simp add: mockToday_def mockWeek_def)
  have "Math_floor (rnd 11 * real_of_int 400) \<le> real_of_int 400 - 1"
    using d [of 11] by (intro draw_floor [THEN conjunct2]) simp_all
  moreover have "0 \<le> Math_floor (rnd' 18 * real_of_int 1500)"
    using d' [of 18] by (intro draw_floor [THEN conjunct1]) simp_all
  ultimately show "activeCalories (mockWeek seed rnd) < activeCalories (mockMonth seed rnd')"
    using s by (simp add: mockWeek_def mockMonth_def)
qed

lemma mock_workouts_scaled:
  assumes "unit_draws rnd" "unit_draws rnd'" "0 \<le> seed"
  shows "workouts (mockToday seed rnd) < workouts (mockWeek seed rnd')"
    and "workouts (mockWeek seed rnd) < workouts (mockMonth seed rnd')"
proof -
  note d = assms(1) [unfolded unit_draws_def, rule_format]
  note d' = assms(2) [unfolded unit_draws_def, rule_format]
  have r: "0 \<le> real_of_int (seed smod k) \<and> real_of_int (seed smod k) \<le> real_of_int k - 1" if "0 < k" for k
    using smod_bounds [OF assms(3) that] by (simp flip: of_int_diff)
  have "0 \<le> Math_floor (rnd' 12 * real_of_int 3)"
    using d' [of 12] by (intro draw_floor [THEN conjunct1]) simp_all
  then show "workouts (mockToday seed rnd) < workouts (mockWeek seed rnd')"
    using r [of 3] by (simp add: mockToday_def mockWeek_def)
  have "Math_floor (rnd 12 * real_of_int 3) \<le> real_of_int 3 - 1"
    using d [of 12] by (intro draw_floor [THEN conjunct2]) simp_all
  moreover have "0 \<le> Math_floor (rnd' 19 * real_of_int 5)"
    using d' [of 19] by (intro draw_floor [THEN conjunct1]) simp_all
  ultimately show "workouts (mockWeek seed rnd) < workouts (mockMonth seed rnd')"
    using r [of 3] r [of 4] by (simp add: mockWeek_def mockMonth_def)
qed

lemma mock_steps_new_years_eve:
  assumes "unit_draws rnd" "unit_draws rnd'"
  shows "steps (mockWeek 65 rnd') < steps (mockToday 65 rnd)"
proof -
  note d = assms(1) [unfolded unit_draws_def, rule_format]
  note d' = assms(2) [unfolded unit_draws_def, rule_format]
  have "0 \<le> Math_floor (rnd 0 * real_of_int 4000)"
    using d [of 0] by (intro draw_floor [THEN conjunct1]) simp_all
  moreover have "Math_floor (rnd' 6 * real_of_int 1500) \<le> real_of_int 1500 - 1"
    using d' [of 6] by (intro draw_floor [THEN conjunct2]) simp_all
  ultimately show ?thesis
    by (simp add: mockToday_def mockWeek_def)
qed

text \<open>
  C9 as stated fails for the steps: they do not grow with the timeframe. The three entries
  are daily figures, and the seed weighs most on today's (100 steps a unit of seed against
  50 and 25). On 2025-12-31 at 23:30 the seed is 31 + 11 + 23 = 65. With every random
  number one half the steps are 15500 for today, 12500 for the week and 11125 for the
  month; and whatever the random numbers, today's steps are at least 13500 and the week's
  at most 13249, so no average of today's steps is below an average of the week's.
\<close>

lemma new_years_eve_steps:
  "steps (getRealisticMockData new_years_eve_env ''today'') = 15500 \<and>
   steps (getRealisticMockData new_years_eve_env ''week'') = 12500 \<and>
   steps (getRealisticMockData new_years_eve_env ''month'') = 11125"
proof -
  have 1: "mockSeed (tza new_years_eve_env) (now new_years_eve_env) = 65"
    by (simp add: new_years_eve_env_def example_env_def mockSeed_new_years_eve)
  have 2: "random new_years_eve_env = (\<lambda>i. 1 / 2)"
    by (simp add: new_years_eve_env_def example_env_def)
  show ?thesis
    by (simp add: getRealisticMockData_cases 1 2 mockToday_def mockWeek_def mockMonth_def
        Math_floor_def)
qed

theorem generated_steps_counterexample:
  "mockSeed (tza new_years_eve_env) (now new_years_eve_env) = 65 \<and>
   steps (getRealisticMockData new_years_eve_env ''today'') = 15500 \<and>
   steps (getRealisticMockData new_years_eve_env ''week'') = 12500 \<and>
   steps (getRealisticMockData new_years_eve_env ''month'') = 11125 \<and>
   \<not> (\<exists>e e'. now e = now new_years_eve_env \<and> tza e = tza new_years_eve_env \<and>
          now e' = now new_years_eve_env \<and> tza e' = tza new_years_eve_env \<and>
          unit_draws (random e) \<and> unit_draws (random e') \<and>
          steps (getRealisticMockData e ''today'') \<le> steps (getRealisticMockData e' ''week''))"
proof -
  have seed: "mockSeed (tza new_years_eve_env) (now new_years_eve_env) = 65"
    by (simp add: new_years_eve_env_def example_env_def mockSeed_new_years_eve)
  have "steps (getRealisticMockData e' ''week'') < steps (getRealisticMockData e ''today'')"
    if "now e = now new_years_eve_env" "tza e = tza new_years_eve_env"
      "now e' = now new_years_eve_env" "tza e' = tza new_years_eve_env"
      "unit_draws (random e)" "unit_draws (random e')" for e e'
    using mock_steps_new_years_eve [OF that(5,6)]
    by (simp add: getRealisticMockData_cases that(1-4) seed)
  then have "\<not> (\<exists>e e'. now e = now new_years_eve_env \<and> tza e = tza new_years_eve_env \<and>
          now e' = now new_years_eve_env \<and> tza e' = tza new_years_eve_env \<and>
          unit_draws (random e) \<and> unit_draws (random e') \<and>
          steps (getRealisticMockData e ''today'') \<le> steps (getRealisticMockData e' ''week''))"
    by fastforce
  with seed new_years_eve_steps show ?thesis
    by blast
qed

text \<open>
  From a seed of 31 on, today's steps exceed the week's whenever the two random numbers
  are equal; they are results of the same generator, so today's average is the larger one
  then. The hours of sleep are not ordered either: with every random number one half they
  are 7.8 for today and 7.6 for the week at seed 6, and 7.8 and 7.9 at seed 39.
\<close>

lemma mock_steps_same_draw:
  assumes "unit_draws rnd" "unit_draws rnd'" "rnd 0 = rnd' 6" "31 \<le> seed"
  shows "steps (mockWeek seed rnd') < steps (mockToday seed rnd)"
proof -
  note d = assms(2) [unfolded unit_draws_def, rule_format]
  have "rnd' 6 * 1500 \<le> rnd' 6 * 4000"
    using d [of 6] by simp
  then have "Math_floor (rnd' 6 * 1500) \<le> Math_floor (rnd' 6 * 4000)"
    by (simp add: Math_floor_def floor_mono)
  moreover have "real_of_int 31 \<le> real_of_int seed"
    using assms(4) by (simp only: of_int_le_iff)
  ultimately show ?thesis
    by (simp add: mockToday_def mockWeek_def assms(3))
qed

lemma example_sleep_hours:
  "sleepHours (mockToday 6 (\<lambda>i. 1 / 2)) = 7.8 \<and> sleepHours (mockWeek 6 (\<lambda>i. 1 / 2)) = 7.6 \<and>
   sleepHours (mockToday 39 (\<lambda>i. 1 / 2)) = 7.8 \<and> sleepHours (mockWeek 39 (\<lambda>i. 1 / 2)) = 7.9"
  by (simp add: mockToday_def mockWeek_def Math_round_def)

text \<open>
  C9, amended. At every instant and for all random numbers in the unit interval, the
  generated summary of every timeframe is well formed; every value the active calories
  and the workouts can take for \<^verbatim>\<open>today\<close> is below every value they can take for
  \<^verbatim>\<open>week\<close>, and every value for \<^verbatim>\<open>week\<close> below every value for \<^verbatim>\<open>month\<close>, so
  their averages are ordered in the same way. Nothing is said of the order of steps and
  hours of sleep.
\<close>

theorem generated_data_valid_and_scaled:
  assumes "unit_draws (random e)" and "unit_draws (random e')"
    and "now e' = now e" and "tza e' = tza e"
  shows "well_formed_summary (getRealisticMockData e timeframe) \<and>
    activeCalories (getRealisticMockData e ''today'') <
      activeCalories (getRealisticMockData e' ''week'') \<and>
    activeCalories (getRealisticMockData e ''week'') <
      activeCalories (getRealisticMockData e' ''month'') \<and>
    workouts (getRealisticMockData e ''today'') < workouts (getRealisticMockData e' ''week'') \<and>
    workouts (getRealisticMockData e ''week'') < workouts (getRealisticMockData e' ''month'')"
proof -
  have seed: "0 \<le> mockSeed (tza e) (now e)"
    using mockSeed_pos [of "tza e" "now e"] by simp
  show ?thesis
    using getRealisticMockData_well_formed [OF assms(1), of timeframe]
      mock_calories_scaled [OF assms(1,2) seed] mock_workouts_scaled [OF assms(1,2) seed]
    by (simp add: getRealisticMockData_cases assms(3,4))
qed

theorem generated_data_valid_and_scaled_witness:
  "unit_draws (random no_snapshot_env) \<and>
   well_formed_summary (getRealisticMockData no_snapshot_env ''today'') \<and>
   activeCalories (getRealisticMockData no_snapshot_env ''today'') = 1230 \<and>
   activeCalories (getRealisticMockData no_snapshot_env ''week'') = 4170 \<and>
   activeCalories (getRealisticMockData no_snapshot_env ''month'') = 16650 \<and>
   workouts (getRealisticMockData no_snapshot_env ''today'') = 1 \<and>
   workouts (getRealisticMockData no_snapshot_env ''week'') = 5 \<and>
   workouts (getRealisticMockData no_snapshot_env ''month'') = 23"
proof -
  have 1: "unit_draws (random no_snapshot_env)"
    by (simp add: unit_draws_def no_snapshot_env_def example_env_def)
  have 2: "mockSeed (tza no_snapshot_env) (now no_snapshot_env) = 39"
    by (simp add: no_snapshot_env_def example_env_def example_instants example_seed)
  have 3: "random no_snapshot_env = (\<lambda>i. 1 / 2)"
    by (simp add: no_snapshot_env_def example_env_def)
  show ?thesis
    using 1 generated_data_valid_and_scaled [OF 1 1, of "''today''"]
    by (simp add: getRealisticMockData_cases 2 3 mockToday_def mockWeek_def mockMonth_def
        Math_floor_def)
qed

section \<open>The live snapshot\<close>

text \<open>
  C5 as stated fails on zeros: a field that is present with the number 0 is falsy and
  takes its default like a missing one. A snapshot of the early morning with 0 hours of
  sleep and 0 active calories, which the reader accepts in the afternoon, gives 7.5 hours
  and 400 calories, where the mapping of the specification keeps the zeros; a heart rate
  of 0 gives the average 75, not 0.
\<close>

theorem processiPhoneData_zero_counterexample:
  "snd (readiPhoneData (example_env\<lparr>iCloud := Snapshot morning_snapshot\<rparr>)) =
     Some morning_snapshot \<and>
   processiPhoneData morning_snapshot ''today'' \<noteq>
     spec_liveSync_summary morning_snapshot ''today'' \<and>
   sleepHours (processiPhoneData morning_snapshot ''today'') = 7.5 \<and>
   sleepHours (spec_liveSync_summary morning_snapshot ''today'') = 0 \<and>
   activeCalories (processiPhoneData morning_snapshot ''today'') = 400 \<and>
   activeCalories (spec_liveSync_summary morning_snapshot ''today'') = 0 \<and>
   average (heartRate (processiPhoneData (morning_snapshot\<lparr>iHeartRate := Some 0\<rparr>) ''today'')) = 75 \<and>
   average (heartRate (spec_liveSync_summary (morning_snapshot\<lparr>iHeartRate := Some 0\<rparr>) ''today'')) = 0"
proof -
  have "snd (readiPhoneData (example_env\<lparr>iCloud := Snapshot morning_snapshot\<rparr>)) =
     Some morning_snapshot"
    by (simp add: readiPhoneData_def example_env_def morning_snapshot_def example_instants)
  then show ?thesis
    by (simp add: processiPhoneData_def spec_liveSync_summary_def morning_snapshot_def
        or_default_def spec_default_def)
qed

text \<open>
  C5, amended. For every snapshot and every timeframe: steps are the snapshot's, or 0
  when missing; a heart rate \<open>h\<close> that is present and not 0 gives resting \<open>h - 10\<close>,
  average \<open>h\<close> and maximum \<open>h + 60\<close>, a missing or zero one average 75 and maximum 135;
  hours of sleep and active calories are the snapshot's when present and not 0, and 7.5
  and 400 when missing or 0; the workouts are 1 when the timeframe is \<^verbatim>\<open>today\<close> and
  the snapshot's own active calories are above 300, 0 when it is \<^verbatim>\<open>today\<close> otherwise,
  and 5 for any other timeframe.
\<close>

theorem processiPhoneData_mapping:
  "(iSteps j = None \<longrightarrow> steps (processiPhoneData j timeframe) = 0) \<and>
   (\<forall>v. iSteps j = Some v \<longrightarrow> steps (processiPhoneData j timeframe) = v) \<and>
   (\<forall>h. iHeartRate j = Some h \<and> h \<noteq> 0 \<longrightarrow>
      heartRate (processiPhoneData j timeframe) =
        \<lparr>resting = h - 10, average = h, max' = h + 60\<rparr>) \<and>
   (iHeartRate j = None \<or> iHeartRate j = Some 0 \<longrightarrow>
      average (heartRate (processiPhoneData j timeframe)) = 75 \<and>
      max' (heartRate (processiPhoneData j timeframe)) = 135) \<and>
   (\<forall>v. iSleepHours j = Some v \<and> v \<noteq> 0 \<longrightarrow> sleepHours (processiPhoneData j timeframe) = v) \<and>
   (iSleepHours j = None \<or> iSleepHours j = Some 0 \<longrightarrow>
      sleepHours (processiPhoneData j timeframe) = 7.5) \<and>
   (\<forall>v. iActiveCalories j = Some v \<and> v \<noteq> 0 \<longrightarrow>
      activeCalories (processiPhoneData j timeframe) = v) \<and>
   (iActiveCalories j = None \<or> iActiveCalories j = Some 0 \<longrightarrow>
      activeCalories (processiPhoneData j timeframe) = 400) \<and>
   workouts (processiPhoneData j timeframe) =
     (if timeframe = ''today''
      then (if \<exists>c. iActiveCalories j = Some c \<and> c > 300 then 1 else 0)
      else 5)"
  by (auto simp add: processiPhoneData_def or_default_def split: option.split)

theorem processiPhoneData_mapping_witness:
  "heartRate (processiPhoneData morning_snapshot ''today'') =
     \<lparr>resting = 54, average = 64, max' = 124\<rparr> \<and>
   steps (processiPhoneData morning_snapshot ''today'') = 120 \<and>
   sleepHours (processiPhoneData morning_snapshot ''today'') = 7.5 \<and>
   activeCalories (processiPhoneData morning_snapshot ''today'') = 400 \<and>
   workouts (processiPhoneData morning_snapshot ''today'') = 0 \<and>
   workouts (processiPhoneData morning_snapshot ''week'') = 5"
  using processiPhoneData_mapping [of morning_snapshot "''today''"]
    processiPhoneData_mapping [of morning_snapshot "''week''"]
  by (simp add: morning_snapshot_def)

text \<open>
  The resting rate without a reading is 55, not 65: its line falls back to 65 before it
  takes 10 off, the two lines beside it fall back to 75.
\<close>

lemma processiPhoneData_resting_default:
  "iHeartRate j = None \<or> iHeartRate j = Some 0 \<Longrightarrow>
   resting (heartRate (processiPhoneData j timeframe)) = 55"
  by (auto simp add: processiPhoneData_def or_default_def)

lemma processiPhoneData_well_formed:
  assumes "plausible_snapshot j"
  shows "well_formed_summary (processiPhoneData j timeframe)"
  using assms
  by (auto simp add: plausible_snapshot_def plausible_field_def processiPhoneData_def
      or_default_def well_formed_summary_def nonneg_integer_def positive_integer_def
      split: option.splits)

lemma readiPhoneData_fresh:
  "iCloud e = Snapshot j \<Longrightarrow> iTimestamp j = Some (Date d) \<Longrightarrow> now e - d < 24 * 3600000 \<Longrightarrow>
   readiPhoneData e = ([SnapshotExists, SnapshotRead], Some j)"
  by (simp add: readiPhoneData_def)

lemma readiPhoneData_Some:
  "snd (readiPhoneData e) = Some j \<Longrightarrow> iCloud e = Snapshot j"
  by (auto simp add: readiPhoneData_def Let_def
      split: snapshot_file.splits option.splits js_date.splits if_splits)

text \<open>
  C8. When the snapshot file is absent or cannot be read or parsed, or its timestamp is
  missing, is not a date, or lies 24 hours or more before now, the reader returns no
  snapshot.
\<close>

theorem readiPhoneData_unavailable:
  "iCloud e = NoSnapshot \<or> iCloud e = UnreadableSnapshot \<or>
   (\<exists>j. iCloud e = Snapshot j \<and>
      (iTimestamp j = None \<or> iTimestamp j = Some InvalidDate \<or>
       (\<exists>d. iTimestamp j = Some (Date d) \<and> 24 * 3600000 \<le> now e - d))) \<Longrightarrow>
   snd (readiPhoneData e) = None"
  by (auto simp add: readiPhoneData_def)

theorem readiPhoneData_unavailable_witness:
  "iCloud (example_env\<lparr>iCloud := Snapshot stale_snapshot\<rparr>) = Snapshot stale_snapshot \<and>
   iTimestamp stale_snapshot = Some (Date (instant 2025 7 17 14 59 0 0)) \<and>
   24 * 3600000 \<le> now (example_env\<lparr>iCloud := Snapshot stale_snapshot\<rparr>) - instant 2025 7 17 14 59 0 0 \<and>
   snd (readiPhoneData (example_env\<lparr>iCloud := Snapshot stale_snapshot\<rparr>)) = None \<and>
   snd (readiPhoneData (example_env\<lparr>iCloud := NoSnapshot\<rparr>)) = None \<and>
   snd (readiPhoneData (example_env\<lparr>iCloud := UnreadableSnapshot\<rparr>)) = None \<and>
   snd (readiPhoneData (example_env\<lparr>iCloud := Snapshot (fresh_snapshot\<lparr>iTimestamp := None\<rparr>)\<rparr>)) = None"
proof -
  have 1: "iTimestamp stale_snapshot = Some (Date (instant 2025 7 17 14 59 0 0))"
    by (simp add: stale_snapshot_def)
  have 2: "24 * 3600000 \<le> now (example_env\<lparr>iCloud := Snapshot stale_snapshot\<rparr>) - instant 2025 7 17 14 59 0 0"
    by (simp add: example_env_def example_instants)
  show ?thesis
    using 1 2
      readiPhoneData_unavailable [of "example_env\<lparr>iCloud := Snapshot stale_snapshot\<rparr>"]
      readiPhoneData_unavailable [of "example_env\<lparr>iCloud := NoSnapshot\<rparr>"]
      readiPhoneData_unavailable [of "example_env\<lparr>iCloud := UnreadableSnapshot\<rparr>"]
      readiPhoneData_unavailable
        [of "example_env\<lparr>iCloud := Snapshot (fresh_snapshot\<lparr>iTimestamp := None\<rparr>)\<rparr>"]
    by simp
qed

section \<open>The export reader\<close>

text \<open>The events of a call are those of the three steps it is made of.\<close>

lemma fst_readiPhoneData:
  "set (fst (readiPhoneData e)) \<subseteq> {SnapshotExists, SnapshotRead}"
  by (auto simp add: readiPhoneData_def split: snapshot_file.splits)

lemma fst_checkForAppleHealthData:
  "set (fst (checkForAppleHealthData e)) \<subseteq> {ExportExists, ExportListDir, ExportStat, ExportReadHead}"
  by (auto simp add: checkForAppleHealthData_def split: option.splits)

lemma fst_getHealthSummary:
  "set (fst (getHealthSummary e timeframe)) \<subseteq>
     set (fst (readiPhoneData e)) \<union> set (fst (checkForAppleHealthData e)) \<union>
     set (fst (parseHealthData e timeframe))"
proof -
  obtain t1 r1 where 1: "readiPhoneData e = (t1, r1)"
    by (cases "readiPhoneData e")
  obtain t2 r2 where 2: "checkForAppleHealthData e = (t2, r2)"
    by (cases "checkForAppleHealthData e")
  obtain t3 r3 where 3: "parseHealthData e timeframe = (t3, r3)"
    by (cases "parseHealthData e timeframe")
  show ?thesis
    by (auto simp add: getHealthSummary_def getHealthSummary_body_def parseAppleHealthData_def
        1 2 3 split: option.split bool.split sum.split)
qed

text \<open>
  C6. When the size that \<^verbatim>\<open>statSync\<close> reports for the export is above 100 MB, the
  parser fails with the error of a file too large after it has looked for the file and
  taken its size: it neither reads the file nor parses it, and neither does the resolver
  around it, whose own check reads the first 1000 bytes at most.
\<close>

theorem oversized_export_is_not_read:
  assumes "exportXml e = Some f" and "statSize f = Some sz"
    and "real sz / 1024 / 1024 > MAX_FILE_SIZE_MB"
  shows "parseHealthData e timeframe =
      ([ExportExists, ExportStat], Inl (FailedToParse TooLarge)) \<and>
    ExportReadAll \<notin> set (fst (parseHealthData e timeframe)) \<and>
    ExportParse \<notin> set (fst (parseHealthData e timeframe)) \<and>
    ExportReadAll \<notin> set (fst (getHealthSummary e timeframe)) \<and>
    ExportParse \<notin> set (fst (getHealthSummary e timeframe))"
proof -
  have "parseHealthData e timeframe = ([ExportExists, ExportStat], Inl (FailedToParse TooLarge))"
    using assms by (simp add: parseHealthData_def)
  then show ?thesis
    using fst_getHealthSummary [of e timeframe] fst_readiPhoneData [of e]
      fst_checkForAppleHealthData [of e]
    by auto
qed

theorem oversized_export_is_not_read_witness:
  "exportXml (example_env\<lparr>exportXml := Some oversized_export\<rparr>) = Some oversized_export \<and>
   statSize oversized_export = Some 104857601 \<and>
   real 104857601 / 1024 / 1024 > MAX_FILE_SIZE_MB \<and>
   parseHealthData (example_env\<lparr>exportXml := Some oversized_export\<rparr>) ''today'' =
     ([ExportExists, ExportStat], Inl (FailedToParse TooLarge))"
proof -
  have 1: "exportXml (example_env\<lparr>exportXml := Some oversized_export\<rparr>) = Some oversized_export"
    by simp
  have 2: "statSize oversized_export = Some 104857601"
    by (simp add: oversized_export_def)
  have 3: "real 104857601 / 1024 / 1024 > MAX_FILE_SIZE_MB"
    by (simp add: MAX_FILE_SIZE_MB_def)
  show ?thesis
    using 1 2 3 oversized_export_is_not_read [OF 1 2 3, of "''today''"]
    by simp
qed

lemma parseHealthData_Inr:
  "snd (parseHealthData e timeframe) = Inr h \<Longrightarrow>
   \<exists>f records wkts. exportXml e = Some f \<and> fullContent f = Document records wkts \<and>
     h = extractHealthMetrics (tza e) (now e) records wkts timeframe"
  by (auto simp add: parseHealthData_def parseWithTimeout_def Let_def
      split: option.splits if_splits xml_content.splits)

lemma parseHealthData_unusable:
  assumes "exportXml e = None \<or>
     (\<exists>f. exportXml e = Some f \<and>
        (statSize f = None \<or>
         (\<exists>sz. statSize f = Some sz \<and> MAX_FILE_SIZE_MB < real sz / 1024 / 1024) \<or>
         fullContent f \<in> {ReadFails, NotWellFormed, TimesOut, ExtractionThrows}))"
  shows "\<exists>err. snd (parseHealthData e timeframe) = Inl err"
  using assms
  by (auto simp add: parseHealthData_def parseWithTimeout_def Let_def split: option.splits)

section \<open>The resolver\<close>

lemma snd_getHealthSummary:
  "snd (getHealthSummary e timeframe) =
     (case snd (readiPhoneData e) of
        Some j \<Rightarrow> Inr (processiPhoneData j timeframe)
      | None \<Rightarrow>
          if snd (checkForAppleHealthData e)
          then (case snd (parseHealthData e timeframe) of
                  Inr h \<Rightarrow> Inr h
                | Inl err \<Rightarrow> Inr (getRealisticMockData e timeframe))
          else Inr (getRealisticMockData e timeframe))"
proof -
  obtain t1 r1 where 1: "readiPhoneData e = (t1, r1)"
    by (cases "readiPhoneData e")
  obtain t2 r2 where 2: "checkForAppleHealthData e = (t2, r2)"
    by (cases "checkForAppleHealthData e")
  obtain t3 r3 where 3: "parseHealthData e timeframe = (t3, r3)"
    by (cases "parseHealthData e timeframe")
  show ?thesis
    by (simp add: getHealthSummary_def getHealthSummary_body_def parseAppleHealthData_def 1 2 3
        split: option.split bool.split sum.split)
qed

lemma getHealthSummary_sources:
  "(\<exists>j. iCloud e = Snapshot j \<and> snd (getHealthSummary e timeframe) = Inr (processiPhoneData j timeframe)) \<or>
   (\<exists>f records wkts. exportXml e = Some f \<and> fullContent f = Document records wkts \<and>
      snd (getHealthSummary e timeframe) =
        Inr (extractHealthMetrics (tza e) (now e) records wkts timeframe)) \<or>
   snd (getHealthSummary e timeframe) = Inr (getRealisticMockData e timeframe)"
proof (cases "snd (readiPhoneData e)")
  case (Some j)
  then have "iCloud e = Snapshot j"
    by (rule readiPhoneData_Some)
  moreover from Some have "snd (getHealthSummary e timeframe) = Inr (processiPhoneData j timeframe)"
    by (simp add: snd_getHealthSummary)
  ultimately show ?thesis by blast
next
  case None
  show ?thesis
  proof (cases "snd (parseHealthData e timeframe)")
    case (Inl err)
    with None have "snd (getHealthSummary e timeframe) = Inr (getRealisticMockData e timeframe)"
      by (simp add: snd_getHealthSummary)
    then show ?thesis by blast
  next
    case (Inr h)
    with None have "snd (getHealthSummary e timeframe) = Inr h \<or>
        snd (getHealthSummary e timeframe) = Inr (getRealisticMockData e timeframe)"
      by (simp add: snd_getHealthSummary)
    with parseHealthData_Inr [OF Inr] show ?thesis by auto
  qed
qed

text \<open>
  C1. When the snapshot is there, parses, and carries a timestamp less than 24 hours
  before now, the resolver returns the summary made from the snapshot, for every
  timeframe and whatever the export is; it has looked at the snapshot file only and at
  nothing of the export.
\<close>

theorem fresh_snapshot_precedes_export:
  assumes "iCloud e = Snapshot j" and "iTimestamp j = Some (Date d)"
    and "now e - d < 24 * 3600000"
  shows "getHealthSummary e timeframe =
      ([SnapshotExists, SnapshotRead], Inr (processiPhoneData j timeframe)) \<and>
    set (fst (getHealthSummary e timeframe)) \<inter>
      {ExportExists, ExportListDir, ExportStat, ExportReadHead, ExportReadAll, ExportParse} = {}"
proof -
  have "getHealthSummary e timeframe =
      ([SnapshotExists, SnapshotRead], Inr (processiPhoneData j timeframe))"
    using assms
    by (simp add: getHealthSummary_def getHealthSummary_body_def readiPhoneData_fresh)
  then show ?thesis
    by simp
qed

theorem fresh_snapshot_precedes_export_witness:
  "iCloud example_env = Snapshot fresh_snapshot \<and>
   iTimestamp fresh_snapshot = Some (Date (instant 2025 7 18 14 0 0 0)) \<and>
   now example_env - instant 2025 7 18 14 0 0 0 < 24 * 3600000 \<and>
   snd (checkForAppleHealthData example_env) \<and>
   (\<exists>h. snd (parseHealthData example_env ''week'') = Inr h) \<and>
   getHealthSummary example_env ''week'' =
     ([SnapshotExists, SnapshotRead],
      Inr \<lparr>steps = 8000, heartRate = \<lparr>resting = 62, average = 72, max' = 132\<rparr>,
           sleepHours = 6.5, activeCalories = 350, workouts = 5\<rparr>)"
proof -
  have 1: "iCloud example_env = Snapshot fresh_snapshot"
    by (simp add: example_env_def)
  have 2: "iTimestamp fresh_snapshot = Some (Date (instant 2025 7 18 14 0 0 0))"
    by (simp add: fresh_snapshot_def)
  have 3: "now example_env - instant 2025 7 18 14 0 0 0 < 24 * 3600000"
    by (simp add: example_env_def example_instants)
  have 4: "snd (checkForAppleHealthData example_env)"
    by (simp add: checkForAppleHealthData_def example_env_def example_export_def)
  have 5: "\<exists>h. snd (parseHealthData example_env ''week'') = Inr h"
    by (simp add: parseHealthData_def parseWithTimeout_def example_env_def example_export_def
        MAX_FILE_SIZE_MB_def)
  show ?thesis
    using 1 2 3 4 5 fresh_snapshot_precedes_export [OF 1 2 3, of "''week''"]
    by (simp add: processiPhoneData_def or_default_def fresh_snapshot_def)
qed

text \<open>
  C2. For every valid timeframe and every state of the two files the promise of the
  resolver is fulfilled with a summary, never rejected. When the reader has no snapshot
  and the export is absent, or its size cannot be taken or is above the limit, or reading
  or parsing it fails or times out, the summary is the generated one.
\<close>

theorem getHealthSummary_always_fulfilled:
  assumes "valid_timeframe timeframe"
  shows "(\<exists>h. snd (getHealthSummary e timeframe) = Inr h) \<and>
    (snd (readiPhoneData e) = None \<and>
     (exportXml e = None \<or>
      (\<exists>f. exportXml e = Some f \<and>
         (statSize f = None \<or>
          (\<exists>sz. statSize f = Some sz \<and> MAX_FILE_SIZE_MB < real sz / 1024 / 1024) \<or>
          fullContent f \<in> {ReadFails, NotWellFormed, TimesOut, ExtractionThrows}))) \<longrightarrow>
     snd (getHealthSummary e timeframe) = Inr (getRealisticMockData e timeframe))"
proof
  show "\<exists>h. snd (getHealthSummary e timeframe) = Inr h"
    by (simp add: snd_getHealthSummary split: option.split sum.split)
  show "snd (readiPhoneData e) = None \<and>
     (exportXml e = None \<or>
      (\<exists>f. exportXml e = Some f \<and>
         (statSize f = None \<or>
          (\<exists>sz. statSize f = Some sz \<and> MAX_FILE_SIZE_MB < real sz / 1024 / 1024) \<or>
          fullContent f \<in> {ReadFails, NotWellFormed, TimesOut, ExtractionThrows}))) \<longrightarrow>
     snd (getHealthSummary e timeframe) = Inr (getRealisticMockData e timeframe)"
  proof
    assume *: "snd (readiPhoneData e) = None \<and>
     (exportXml e = None \<or>
      (\<exists>f. exportXml e = Some f \<and>
         (statSize f = None \<or>
          (\<exists>sz. statSize f = Some sz \<and> MAX_FILE_SIZE_MB < real sz / 1024 / 1024) \<or>
          fullContent f \<in> {ReadFails, NotWellFormed, TimesOut, ExtractionThrows})))"
    then obtain err where "snd (parseHealthData e timeframe) = Inl err"
      using parseHealthData_unusable [of e timeframe] by blast
    with * show "snd (getHealthSummary e timeframe) = Inr (getRealisticMockData e timeframe)"
      by (simp add: snd_getHealthSummary)
  qed
qed

theorem getHealthSummary_always_fulfilled_witness:
  "valid_timeframe ''today'' \<and>
   iCloud no_snapshot_env = NoSnapshot \<and>
   snd (readiPhoneData no_snapshot_env) = None \<and>
   exportXml no_snapshot_env = Some truncated_export \<and>
   fullContent truncated_export = NotWellFormed \<and>
   snd (checkForAppleHealthData no_snapshot_env) \<and>
   snd (parseHealthData no_snapshot_env ''today'') = Inl (FailedToParse Malformed) \<and>
   snd (getHealthSummary no_snapshot_env ''today'') =
     Inr (getRealisticMockData no_snapshot_env ''today'')"
proof -
  have 1: "valid_timeframe ''today''"
    by (simp add: valid_timeframe_def)
  have 2: "iCloud no_snapshot_env = NoSnapshot"
    and 3: "exportXml no_snapshot_env = Some truncated_export"
    by (simp_all add: no_snapshot_env_def)
  have 4: "fullContent truncated_export = NotWellFormed"
    by (simp add: truncated_export_def)
  have 5: "snd (readiPhoneData no_snapshot_env) = None"
    by (simp add: readiPhoneData_def 2)
  have 6: "snd (checkForAppleHealthData no_snapshot_env)"
    by (simp add: checkForAppleHealthData_def 3 truncated_export_def example_export_def)
  have 7: "snd (parseHealthData no_snapshot_env ''today'') = Inl (FailedToParse Malformed)"
    by (simp add: parseHealthData_def parseWithTimeout_def 3 truncated_export_def
        example_export_def MAX_FILE_SIZE_MB_def)
  show ?thesis
    using 1 2 3 4 5 6 7 getHealthSummary_always_fulfilled [OF 1, of no_snapshot_env]
    by simp
qed

lemma export_env_summary:
  "getHealthSummary export_env ''today'' =
     ([SnapshotExists, ExportExists, ExportStat, ExportReadHead, ExportExists, ExportStat,
       ExportReadAll, ExportParse],
      Inr \<lparr>steps = 2000, heartRate = \<lparr>resting = 58, average = 83, max' = 95\<rparr>,
           sleepHours = 6.5, activeCalories = 250, workouts = 1\<rparr>)"
proof -
  have 1: "readiPhoneData export_env = ([SnapshotExists], None)"
    by (simp add: readiPhoneData_def export_env_def)
  have 2: "checkForAppleHealthData export_env =
      ([ExportExists, ExportStat, ExportReadHead], True)"
    by (simp add: checkForAppleHealthData_def export_env_def example_env_def example_export_def)
  have "parseWithTimeout export_env example_export ''today'' =
      ([ExportReadAll, ExportParse],
       Inr (extractHealthMetrics (fixed_zone 0) (instant 2025 7 18 15 0 0 0) example_records
         [\<lparr>workoutStart = instant 2025 7 18 7 30 0 0\<rparr>] ''today''))"
    by (simp add: parseWithTimeout_def export_env_def example_env_def example_export_def)
  then have 3: "parseHealthData export_env ''today'' =
      ([ExportExists, ExportStat, ExportReadAll, ExportParse],
       Inr \<lparr>steps = 2000, heartRate = \<lparr>resting = 58, average = 83, max' = 95\<rparr>,
           sleepHours = 6.5, activeCalories = 250, workouts = 1\<rparr>)"
    unfolding example_extraction
    by (simp add: parseHealthData_def MAX_FILE_SIZE_MB_def export_env_def example_env_def
        example_export_def)
  show ?thesis
    by (simp add: getHealthSummary_def getHealthSummary_body_def parseAppleHealthData_def 1 2 3)
qed

text \<open>
  C3 as stated fails on records that mean nothing: the extractor adds up what the export
  holds and checks none of it, so one step record with the value -100 gives a summary
  with -100 steps.
\<close>

theorem resolved_summary_counterexample:
  "snd (getHealthSummary (export_env\<lparr>exportXml := Some negative_steps_export\<rparr>) ''today'') =
     Inr \<lparr>steps = - 100, heartRate = \<lparr>resting = 60, average = 80, max' = 120\<rparr>,
          sleepHours = 7.5, activeCalories = 0, workouts = 0\<rparr> \<and>
   \<not> well_formed_summary
     \<lparr>steps = - 100, heartRate = \<lparr>resting = 60, average = 80, max' = 120\<rparr>,
      sleepHours = 7.5, activeCalories = 0, workouts = 0\<rparr>"
proof -
  have "extractHealthMetrics (fixed_zone 0) (instant 2025 7 18 15 0 0 0)
      [\<lparr>rtype = ''HKQuantityTypeIdentifierStepCount'', rvalue = - 100,
           startDate = instant 2025 7 18 9 0 0 0, endDate = instant 2025 7 18 9 30 0 0\<rparr>]
      [] ''today'' =
    \<lparr>steps = - 100, heartRate = \<lparr>resting = 60, average = 80, max' = 120\<rparr>,
          sleepHours = 7.5, activeCalories = 0, workouts = 0\<rparr>"
    by (simp add: extractHealthMetrics_def example_instants example_window
        extractSteps_def extractHeartRate_def extractSleep_def extractActiveCalories_def
        Math_round_def)
  then show ?thesis
    by (simp add: snd_getHealthSummary readiPhoneData_def
        checkForAppleHealthData_def parseHealthData_def
        parseWithTimeout_def MAX_FILE_SIZE_MB_def export_env_def example_env_def
        example_export_def negative_steps_export_def well_formed_summary_def
        nonneg_integer_def)
qed

text \<open>
  C3, amended. For every valid timeframe, when the random numbers lie in the unit
  interval, the snapshot (if there is one) is plausible and every record of the export
  (if it parses) is plausible, the resolver returns a well-formed summary: steps, active
  calories and workouts whole and not negative, hours of sleep not negative, the three
  heart rates whole and positive with the maximum not below the average.
\<close>

theorem resolved_summary_well_formed:
  assumes "valid_timeframe timeframe"
    and "unit_draws (random e)"
    and "\<forall>j. iCloud e = Snapshot j \<longrightarrow> plausible_snapshot j"
    and "\<forall>f records wkts. exportXml e = Some f \<and> fullContent f = Document records wkts \<longrightarrow>
           (\<forall>r\<in>set records. plausible_record r)"
  shows "\<exists>h. snd (getHealthSummary e timeframe) = Inr h \<and> well_formed_summary h"
proof -
  have mock: "well_formed_summary (getRealisticMockData e timeframe)"
    using assms(2) by (rule getRealisticMockData_well_formed)
  from getHealthSummary_sources [of e timeframe] show ?thesis
  proof (elim disjE exE conjE)
    fix j
    assume "iCloud e = Snapshot j"
      and *: "snd (getHealthSummary e timeframe) = Inr (processiPhoneData j timeframe)"
    with assms(3) have "plausible_snapshot j" by blast
    then show ?thesis
      using * processiPhoneData_well_formed by blast
  next
    fix f records wkts
    assume "exportXml e = Some f" "fullContent f = Document records wkts"
      and *: "snd (getHealthSummary e timeframe) =
        Inr (extractHealthMetrics (tza e) (now e) records wkts timeframe)"
    with assms(4) have "\<forall>r\<in>set records. plausible_record r" by blast
    then show ?thesis
      using * extract_well_formed by blast
  next
    assume "snd (getHealthSummary e timeframe) = Inr (getRealisticMockData e timeframe)"
    with mock show ?thesis by blast
  qed
qed

theorem resolved_summary_well_formed_witness:
  "valid_timeframe ''today'' \<and> unit_draws (random export_env) \<and>
   iCloud export_env = NoSnapshot \<and>
   exportXml export_env = Some example_export \<and>
   list_all plausible_record example_records \<and>
   snd (getHealthSummary export_env ''today'') =
     Inr \<lparr>steps = 2000, heartRate = \<lparr>resting = 58, average = 83, max' = 95\<rparr>,
          sleepHours = 6.5, activeCalories = 250, workouts = 1\<rparr> \<and>
   well_formed_summary
     \<lparr>steps = 2000, heartRate = \<lparr>resting = 58, average = 83, max' = 95\<rparr>,
      sleepHours = 6.5, activeCalories = 250, workouts = 1\<rparr>"
proof -
  have 1: "valid_timeframe ''today''"
    by (simp add: valid_timeframe_def)
  have 2: "unit_draws (random export_env)"
    by (simp add: unit_draws_def export_env_def example_env_def)
  have 3: "iCloud export_env = NoSnapshot" and 4: "exportXml export_env = Some example_export"
    by (simp_all add: export_env_def example_env_def)
  have 5: "list_all plausible_record example_records"
    by (simp add: example_records_def plausible_record_def example_instants)
  have 6: "\<forall>j. iCloud export_env = Snapshot j \<longrightarrow> plausible_snapshot j"
    by (simp add: 3)
  have 7: "\<forall>f records wkts. exportXml export_env = Some f \<and> fullContent f = Document records wkts \<longrightarrow>
           (\<forall>r\<in>set records. plausible_record r)"
    using 5 by (auto simp add: 4 example_export_def list_all_iff)
  show ?thesis
    using 1 2 3 4 5 resolved_summary_well_formed [OF 1 2 6 7] export_env_summary
    by auto
qed

section \<open>The limit of the workout tool\<close>

lemma length_mockWorkouts: "length mockWorkouts = 3"
  by (simp add: mockWorkouts_def)

lemma slice0_positive:
  "0 \<le> l \<Longrightarrow> slice0 xs l = take (nat \<lfloor>l\<rfloor>) xs"
  by (simp add: slice0_def ToIntegerOrInfinity_def Let_def min_def)

text \<open>
  C10. A limit of 0 is falsy, so the default 5 takes its place and all three workouts are
  returned. A limit of at least 1 returns as many workouts as its whole part says, at
  most three: for a whole limit that is the smaller of the limit and 3.
\<close>

theorem getWorkoutDetails_limit:
  "getWorkoutDetails (Some 0) = mockWorkouts \<and>
   length (getWorkoutDetails (Some 0)) = 3 \<and>
   (1 \<le> l \<longrightarrow> int (length (getWorkoutDetails (Some l))) = min \<lfloor>l\<rfloor> 3) \<and>
   (1 \<le> l \<and> l \<in> \<int> \<longrightarrow> real (length (getWorkoutDetails (Some l))) = min l 3)"
proof -
  have zero: "getWorkoutDetails (Some 0) = mockWorkouts"
    by (simp add: getWorkoutDetails_def or_default_def slice0_positive length_mockWorkouts)
  have pos: "int (length (getWorkoutDetails (Some l))) = min \<lfloor>l\<rfloor> 3" if "1 \<le> l"
  proof -
    define k where "k = \<lfloor>l\<rfloor>"
    from that have k: "1 \<le> k" unfolding k_def by linarith
    from that have "getWorkoutDetails (Some l) = take (nat k) mockWorkouts"
      by (simp add: getWorkoutDetails_def or_default_def slice0_positive k_def)
    then have "length (getWorkoutDetails (Some l)) = min (nat k) 3"
      by (simp add: length_mockWorkouts min.commute)
    with k show ?thesis
      unfolding k_def [symmetric] by linarith
  qed
  have whole: "real (length (getWorkoutDetails (Some l))) = min l 3" if "1 \<le> l" "l \<in> \<int>"
  proof -
    from that obtain k where k: "l = of_int k" by (auto elim: Ints_cases)
    with pos [OF that(1)] show ?thesis
      by (simp add: min_def split: if_splits)
  qed
  show ?thesis
    using zero pos whole by (simp add: length_mockWorkouts)
qed

theorem getWorkoutDetails_limit_witness:
  "(1::real) \<le> 2 \<and> (2::real) \<in> \<int> \<and> length (getWorkoutDetails (Some 2)) = 2 \<and>
   length (getWorkoutDetails (Some 7)) = 3 \<and> length (getWorkoutDetails (Some 0)) = 3"
  using getWorkoutDetails_limit [of 2] getWorkoutDetails_limit [of 7] by simp

end
